theory Spec2Isabelle
  imports Complex_Main "HOL-Library.AList"
begin

section \<open>Booking confirmation emails: \<open>backend/app/services/notifications.py\<close>\<close>

text \<open>
  The module is Python. Its data are the dictionaries the data store returns (decoded
  JSON), its effects are calls to the data store, to the PDF library and to the email
  provider, and \<open>print\<close>. The embedding has
  \<^item> a datatype of Python values and the builtins the module applies to them
    (truthiness, \<open>or\<close>, \<open>dict.get\<close>, \<open>str\<close>, \<open>float\<close>, \<open>format(_, ".2f")\<close>,
    \<open>str.replace\<close>, \<open>str.splitlines\<close>, \<open>str.join\<close>, \<open>str.capitalize\<close>,
    \<open>datetime.fromisoformat\<close>, \<open>strftime\<close>, \<open>base64.b64encode\<close>);
  \<^item> exceptions as values: a computation that may raise has type \<open>pyexc + 'a\<close>;
  \<^item> the four functions of the module; a run of the workflow is what it returns
    together with the list of effects it performed and the data store it leaves behind.

  A Python \<open>str\<close> is modelled by the \<open>string\<close> of its UTF-8 bytes, a \<open>bytes\<close>
  object by the \<open>string\<close> of its bytes.
\<close>

subsection \<open>Python values\<close>

text \<open>
  A float is an IEEE 754 double: a sign and the exact magnitude of a finite value (so that
  \<open>-0.0\<close> is \<open>Finite True 0\<close>), an infinity, or a NaN.
\<close>

datatype pyfloat = Finite bool rat | Infinity bool | NaN

datatype pyval =
    PNone
  | PBool bool
  | PInt int
  | PFloat pyfloat
  | PStr string
  | PList "pyval list"
  | PDict "(string \<times> pyval) list"

type_synonym pydict = "(string \<times> pyval) list"

text \<open>
  The exceptions that occur. The message is kept where the module prints it;
  \<open>LibraryError\<close> stands for whatever an external library (data store client, PDF
  library, email provider) raises. All of them are subclasses of \<open>Exception\<close>.
\<close>

datatype pyexc =
    AttributeError
  | ValueError
  | TypeError
  | OverflowError
  | RuntimeError string
  | LibraryError string

text \<open>
  \<open>str(exc)\<close>, which the module prints. Of the exceptions of the builtins, which the
  module never prints, only the class is modelled.
\<close>

fun exc_str :: "pyexc \<Rightarrow> string" where
  "exc_str AttributeError = ''AttributeError''"
| "exc_str ValueError = ''ValueError''"
| "exc_str TypeError = ''TypeError''"
| "exc_str OverflowError = ''OverflowError''"
| "exc_str (RuntimeError m) = m"
| "exc_str (LibraryError m) = m"

text \<open>Sequencing of computations that may raise: the first exception wins.\<close>

definition bindE :: "pyexc + 'a \<Rightarrow> ('a \<Rightarrow> pyexc + 'b) \<Rightarrow> pyexc + 'b" where
  "bindE m f = (case m of Inl e \<Rightarrow> Inl e | Inr x \<Rightarrow> f x)"

text \<open>Truthiness (\<open>bool(x)\<close>), \<open>x or y\<close>, \<open>x == "literal"\<close>.\<close>

fun truthy :: "pyval \<Rightarrow> bool" where
  "truthy PNone = False"
| "truthy (PBool b) = b"
| "truthy (PInt n) = (n \<noteq> 0)"
| "truthy (PFloat (Finite s m)) = (m \<noteq> 0)"
| "truthy (PFloat (Infinity s)) = True"
| "truthy (PFloat NaN) = True"
| "truthy (PStr s) = (s \<noteq> [])"
| "truthy (PList xs) = (xs \<noteq> [])"
| "truthy (PDict d) = (d \<noteq> [])"

definition py_or :: "pyval \<Rightarrow> pyval \<Rightarrow> pyval" where
  "py_or a b = (if truthy a then a else b)"

text \<open>An \<open>Optional[dict]\<close> or \<open>Optional[str]\<close> as a value: \<open>None\<close> is \<open>None\<close>.\<close>

definition opt_dict :: "pydict option \<Rightarrow> pyval" where
  "opt_dict d = (case d of None \<Rightarrow> PNone | Some kvs \<Rightarrow> PDict kvs)"

definition opt_str :: "string option \<Rightarrow> pyval" where
  "opt_str s = (case s of None \<Rightarrow> PNone | Some t \<Rightarrow> PStr t)"

text \<open>\<open>d.get(k, default)\<close> on a dictionary, and on any value (only a dict has \<open>get\<close>).\<close>

definition dict_get :: "pydict \<Rightarrow> string \<Rightarrow> pyval \<Rightarrow> pyval" where
  "dict_get d k dflt = (case map_of d k of None \<Rightarrow> dflt | Some v \<Rightarrow> v)"

definition py_get :: "pyval \<Rightarrow> string \<Rightarrow> pyval \<Rightarrow> pyexc + pyval" where
  "py_get x k dflt = (case x of PDict d \<Rightarrow> Inr (dict_get d k dflt) | _ \<Rightarrow> Inl AttributeError)"

subsection \<open>Strings\<close>

fun str_join :: "string \<Rightarrow> string list \<Rightarrow> string" where
  "str_join sep [] = []"
| "str_join sep [x] = x"
| "str_join sep (x # y # ys) = x @ sep @ str_join sep (y # ys)"

text \<open>\<open>s.replace(c, t)\<close> for a one-character pattern.\<close>

definition str_replace :: "char \<Rightarrow> string \<Rightarrow> string \<Rightarrow> string" where
  "str_replace c t s = concat (map (\<lambda>x. if x = c then t else [x]) s)"

text \<open>
  \<open>str.splitlines()\<close>. A line ends at \<open>\n\<close>, \<open>\r\n\<close>, \<open>\r\<close>, \<open>\v\<close>, \<open>\f\<close>,
  \<open>\x1c\<close>, \<open>\x1d\<close>, \<open>\x1e\<close>, \<open>\x85\<close>, \<open>\u2028\<close> or \<open>\u2029\<close> (the last
  three are the byte sequences \<open>C2 85\<close>, \<open>E2 80 A8\<close>, \<open>E2 80 A9\<close> in UTF-8); the line
  ends are dropped, and a line end at the very end of the string opens no further line.
  \<open>line_break s\<close> is the number of bytes of the line end that \<open>s\<close> starts with, or 0.
\<close>

definition LF :: char where "LF = CHR 0x0A"
definition CR :: char where "CR = CHR 0x0D"

definition line_break :: "string \<Rightarrow> nat" where
  "line_break s =
     (case s of
        [] \<Rightarrow> 0
      | c # cs \<Rightarrow>
          if c = CR then (case cs of d # _ \<Rightarrow> if d = LF then 2 else 1 | [] \<Rightarrow> 1)
          else if c = LF \<or> c = CHR 0x0B \<or> c = CHR 0x0C \<or> c = CHR 0x1C \<or> c = CHR 0x1D
                  \<or> c = CHR 0x1E
          then 1
          else if c = CHR 0xC2 then (case cs of d # _ \<Rightarrow> if d = CHR 0x85 then 2 else 0 | [] \<Rightarrow> 0)
          else if c = CHR 0xE2 then
            (case cs of d # e # _ \<Rightarrow> if d = CHR 0x80 \<and> (e = CHR 0xA8 \<or> e = CHR 0xA9) then 3 else 0
                      | _ \<Rightarrow> 0)
          else 0)"

fun splitlines_from :: "string \<Rightarrow> string \<Rightarrow> string list" where
  "splitlines_from cur [] = (if cur = [] then [] else [rev cur])"
| "splitlines_from cur (c # cs) =
     (if line_break (c # cs) = 0 then splitlines_from (c # cur) cs
      else rev cur # splitlines_from [] (drop (line_break (c # cs) - 1) cs))"

definition splitlines :: "string \<Rightarrow> string list" where
  "splitlines s = splitlines_from [] s"

text \<open>
  \<open>str.capitalize()\<close>: the first character in upper case, the rest in lower case. The
  case mapping is that of the ASCII letters; other bytes are left as they are.
\<close>

definition ascii_upper :: "char \<Rightarrow> char" where
  "ascii_upper c =
     (case map_of (zip ''abcdefghijklmnopqrstuvwxyz'' ''ABCDEFGHIJKLMNOPQRSTUVWXYZ'') c of
        Some u \<Rightarrow> u | None \<Rightarrow> c)"

definition ascii_lower :: "char \<Rightarrow> char" where
  "ascii_lower c =
     (case map_of (zip ''ABCDEFGHIJKLMNOPQRSTUVWXYZ'' ''abcdefghijklmnopqrstuvwxyz'') c of
        Some l \<Rightarrow> l | None \<Rightarrow> c)"

fun capitalize :: "string \<Rightarrow> string" where
  "capitalize [] = []"
| "capitalize (c # cs) = ascii_upper c # map ascii_lower cs"

text \<open>Decimal numerals: \<open>str(n)\<close> for an int, and zero padding to a width.\<close>

definition digit_char :: "nat \<Rightarrow> char" where
  "digit_char d = ''0123456789'' ! (d mod 10)"

fun nat_str :: "nat \<Rightarrow> string" where
  "nat_str n = (if n < 10 then [digit_char n] else nat_str (n div 10) @ [digit_char n])"

declare nat_str.simps [simp del]

definition int_str :: "int \<Rightarrow> string" where
  "int_str i = (if i < 0 then CHR ''-'' # nat_str (nat (- i)) else nat_str (nat i))"

definition zero_pad :: "nat \<Rightarrow> string \<Rightarrow> string" where
  "zero_pad w s = replicate (w - length s) (CHR ''0'') @ s"

subsection \<open>Floats\<close>

text \<open>
  Rounding a non-negative rational to the nearest double, ties to even: the magnitude of
  the result, or \<open>None\<close> when the result is out of range. \<open>pow2 e\<close> is 2 to the power
  \<open>e\<close>, \<open>floor_log2 q\<close> is the exponent of the leading bit of \<open>q > 0\<close>.
\<close>

definition round_half_even :: "rat \<Rightarrow> int" where
  "round_half_even q =
     (let f = \<lfloor>q\<rfloor>; d = q - of_int f in
      if d < 1 / 2 then f else if 1 / 2 < d then f + 1 else if even f then f else f + 1)"

definition pow2 :: "int \<Rightarrow> rat" where
  "pow2 e = (if 0 \<le> e then 2 ^ nat e else 1 / 2 ^ nat (- e))"

fun bit_length :: "nat \<Rightarrow> nat" where
  "bit_length n = (if n = 0 then 0 else Suc (bit_length (n div 2)))"

declare bit_length.simps [simp del]

definition floor_log2 :: "rat \<Rightarrow> int" where
  "floor_log2 q =
     (let (a, b) = quotient_of q;
          k = int (bit_length (nat a)) - int (bit_length (nat b))
      in if pow2 k \<le> q then k else k - 1)"

definition round_double :: "rat \<Rightarrow> rat option" where
  "round_double q =
     (if q = 0 then Some 0
      else let e = max (floor_log2 q - 52) (- 1074);
               r = of_int (round_half_even (q / pow2 e)) * pow2 e
           in if 2 ^ 1024 \<le> r then None else Some r)"

text \<open>
  \<open>float(s)\<close> for a string: surrounding whitespace is dropped; then an optional sign and
  either \<open>inf\<close>, \<open>infinity\<close> or \<open>nan\<close> in any case, or a decimal numeral with an
  optional fraction and an optional exponent, where single underscores may separate
  digits. Digits and whitespace are the ASCII ones. \<open>None\<close> is \<open>ValueError\<close>.
\<close>

definition is_space :: "char \<Rightarrow> bool" where
  "is_space c = (let n = (of_char c :: nat) in (9 \<le> n \<and> n \<le> 13) \<or> (28 \<le> n \<and> n \<le> 32))"

definition strip :: "string \<Rightarrow> string" where
  "strip s = rev (dropWhile is_space (rev (dropWhile is_space s)))"

definition is_digit :: "char \<Rightarrow> bool" where
  "is_digit c = (let n = (of_char c :: nat) in 48 \<le> n \<and> n \<le> 57)"

definition digit_val :: "char \<Rightarrow> nat" where
  "digit_val c = of_char c - 48"

definition digits_val :: "string \<Rightarrow> nat" where
  "digits_val ds = foldl (\<lambda>n c. 10 * n + digit_val c) 0 ds"

text \<open>A digit part: digits, with single underscores between digits only.\<close>

fun digitpart_ok :: "string \<Rightarrow> bool" where
  "digitpart_ok [] = False"
| "digitpart_ok [c] = is_digit c"
| "digitpart_ok (c # d # cs) =
     (is_digit c \<and> (if d = CHR ''_'' then digitpart_ok cs else digitpart_ok (d # cs)))"

definition in_digitpart :: "char \<Rightarrow> bool" where
  "in_digitpart c = (is_digit c \<or> c = CHR ''_'')"

definition plain_digits :: "string \<Rightarrow> string" where
  "plain_digits s = filter is_digit s"

text \<open>The exponent \<open>e[+-]digits\<close> at the end of a numeral: its value, 0 when absent.\<close>

definition parse_exponent :: "string \<Rightarrow> int option" where
  "parse_exponent s =
     (case s of
        [] \<Rightarrow> Some 0
      | c # cs \<Rightarrow>
          if c = CHR ''e'' \<or> c = CHR ''E'' then
            (case cs of
               [] \<Rightarrow> None
             | d # ds \<Rightarrow>
                 if d = CHR ''-'' then
                   (if digitpart_ok ds then Some (- int (digits_val (plain_digits ds))) else None)
                 else if d = CHR ''+'' then
                   (if digitpart_ok ds then Some (int (digits_val (plain_digits ds))) else None)
                 else if digitpart_ok cs then Some (int (digits_val (plain_digits cs))) else None)
          else None)"

text \<open>
  The unsigned numeral: \<open>[digits] . digits\<close> or \<open>digits [.]\<close>, then the exponent. The
  result is its exact value.
\<close>

definition parse_number :: "string \<Rightarrow> rat option" where
  "parse_number s =
     (let ip = takeWhile in_digitpart s; r1 = dropWhile in_digitpart s;
          dot = (r1 \<noteq> [] \<and> hd r1 = CHR ''.'');
          r2 = (if dot then tl r1 else r1);
          fp = (if dot then takeWhile in_digitpart r2 else []);
          r3 = (if dot then dropWhile in_digitpart r2 else r2)
      in if (ip = [] \<and> fp = []) \<or> (ip \<noteq> [] \<and> \<not> digitpart_ok ip) \<or> (fp \<noteq> [] \<and> \<not> digitpart_ok fp)
         then None
         else (case parse_exponent r3 of
                 None \<Rightarrow> None
               | Some ex \<Rightarrow>
                   let m = digits_val (plain_digits ip @ plain_digits fp);
                       sh = ex - int (length (plain_digits fp))
                   in Some (if 0 \<le> sh then of_nat m * 10 ^ nat sh else of_nat m / 10 ^ nat (- sh))))"

definition parse_float :: "string \<Rightarrow> pyfloat option" where
  "parse_float s =
     (let t = strip s;
          neg = (t \<noteq> [] \<and> hd t = CHR ''-'');
          u = (if t \<noteq> [] \<and> (hd t = CHR ''-'' \<or> hd t = CHR ''+'') then tl t else t);
          l = map ascii_lower u
      in if l = ''inf'' \<or> l = ''infinity'' then Some (Infinity neg)
         else if l = ''nan'' then Some NaN
         else (case parse_number u of
                 None \<Rightarrow> None
               | Some q \<Rightarrow> (case round_double q of None \<Rightarrow> Some (Infinity neg)
                                                  | Some r \<Rightarrow> Some (Finite neg r))))"

text \<open>\<open>float(x)\<close>.\<close>

fun py_float :: "pyval \<Rightarrow> pyexc + pyfloat" where
  "py_float PNone = Inl TypeError"
| "py_float (PBool b) = Inr (Finite False (if b then 1 else 0))"
| "py_float (PInt n) =
     (case round_double (of_int \<bar>n\<bar>) of None \<Rightarrow> Inl OverflowError
                                       | Some r \<Rightarrow> Inr (Finite (n < 0) r))"
| "py_float (PFloat f) = Inr f"
| "py_float (PStr s) = (case parse_float s of None \<Rightarrow> Inl ValueError | Some f \<Rightarrow> Inr f)"
| "py_float (PList xs) = Inl TypeError"
| "py_float (PDict d) = Inl TypeError"

text \<open>
  \<open>format(x, ".2f")\<close>: the exact value rounded to two decimals, ties to even, with the
  sign of the float.
\<close>

definition format_2f :: "pyfloat \<Rightarrow> string" where
  "format_2f x =
     (case x of
        NaN \<Rightarrow> ''nan''
      | Infinity neg \<Rightarrow> (if neg then ''-inf'' else ''inf'')
      | Finite neg m \<Rightarrow>
          (let c = nat (round_half_even (m * 100))
           in (if neg then ''-'' else []) @ nat_str (c div 100) @ ''.''
                @ zero_pad 2 (nat_str (c mod 100))))"

text \<open>
  \<open>str(x)\<close>, which is what an f-string applies to \<open>{x}\<close>. The text of a float and of a
  list or dict (their \<open>repr\<close>) is not modelled: it is the parameter \<open>rp\<close>.
\<close>

fun py_str :: "(pyval \<Rightarrow> string) \<Rightarrow> pyval \<Rightarrow> string" where
  "py_str rp PNone = ''None''"
| "py_str rp (PBool b) = (if b then ''True'' else ''False'')"
| "py_str rp (PInt n) = int_str n"
| "py_str rp (PStr s) = s"
| "py_str rp x = rp x"

subsection \<open>Dates\<close>

text \<open>
  \<open>datetime.fromisoformat\<close> reads the format that \<open>datetime.isoformat\<close> writes:
  \<open>YYYY-MM-DD\<close>, optionally followed by one separator character and a time
  \<open>HH[:MM[:SS[.fff[fff]]]]\<close> with an optional UTC offset \<open>+HH:MM[:SS[.ffffff]]\<close>
  (or \<open>-\<close>), and checks the ranges of the fields as the \<open>datetime\<close> constructor does.
  This is the format documented for Python 3.7 to 3.10; later versions read further
  ISO 8601 forms as well. The UTC offset is kept in microseconds.
\<close>

record datetime =
  dt_year :: nat
  dt_month :: nat
  dt_day :: nat
  dt_hour :: nat
  dt_minute :: nat
  dt_second :: nat
  dt_microsecond :: nat
  dt_utcoffset :: "int option"

definition parse_digits :: "string \<Rightarrow> nat option" where
  "parse_digits s = (if s \<noteq> [] \<and> list_all is_digit s then Some (digits_val s) else None)"

definition is_leap :: "nat \<Rightarrow> bool" where
  "is_leap y = (y mod 4 = 0 \<and> (y mod 100 \<noteq> 0 \<or> y mod 400 = 0))"

definition days_in_month :: "nat \<Rightarrow> nat \<Rightarrow> nat" where
  "days_in_month y m =
     (if m = 2 then (if is_leap y then 29 else 28)
      else if m = 4 \<or> m = 6 \<or> m = 9 \<or> m = 11 then 30 else 31)"

definition parse_isoformat_date :: "string \<Rightarrow> (nat \<times> nat \<times> nat) option" where
  "parse_isoformat_date s =
     (if length s = 10 \<and> s ! 4 = CHR ''-'' \<and> s ! 7 = CHR ''-'' then
        (case (parse_digits (take 4 s), parse_digits (take 2 (drop 5 s)), parse_digits (drop 8 s)) of
           (Some y, Some m, Some d) \<Rightarrow> Some (y, m, d)
         | _ \<Rightarrow> None)
      else None)"

text \<open>\<open>HH\<close>, \<open>HH:MM\<close>, \<open>HH:MM:SS\<close>, \<open>HH:MM:SS.fff\<close> or \<open>HH:MM:SS.ffffff\<close>.\<close>

definition parse_hh_mm_ss_ff :: "string \<Rightarrow> (nat \<times> nat \<times> nat \<times> nat) option" where
  "parse_hh_mm_ss_ff t =
     (let n = length t;
          hh = parse_digits (take 2 t);
          mm = (if 5 \<le> n then parse_digits (take 2 (drop 3 t)) else Some 0);
          ss = (if 8 \<le> n then parse_digits (take 2 (drop 6 t)) else Some 0);
          ff = (if n = 12 then map_option (\<lambda>f. f * 1000) (parse_digits (drop 9 t))
                else if n = 15 then parse_digits (drop 9 t) else Some 0)
      in if (n = 2 \<or> n = 5 \<or> n = 8 \<or> n = 12 \<or> n = 15)
            \<and> (5 \<le> n \<longrightarrow> t ! 2 = CHR '':'') \<and> (8 \<le> n \<longrightarrow> t ! 5 = CHR '':'')
            \<and> (12 \<le> n \<longrightarrow> t ! 8 = CHR ''.'')
         then (case (hh, mm, ss, ff) of
                 (Some h, Some m, Some s, Some f) \<Rightarrow> Some (h, m, s, f)
               | _ \<Rightarrow> None)
         else None)"

definition is_sign :: "char \<Rightarrow> bool" where
  "is_sign c = (c = CHR ''+'' \<or> c = CHR ''-'')"

text \<open>The time with its optional offset: hour, minute, second, microsecond, offset.\<close>

definition parse_isoformat_time ::
  "string \<Rightarrow> (nat \<times> nat \<times> nat \<times> nat \<times> int option) option" where
  "parse_isoformat_time t =
     (let timestr = takeWhile (\<lambda>c. \<not> is_sign c) t; r = dropWhile (\<lambda>c. \<not> is_sign c) t
      in case parse_hh_mm_ss_ff timestr of
           None \<Rightarrow> None
         | Some (h, m, s, f) \<Rightarrow>
             (case r of
                [] \<Rightarrow> Some (h, m, s, f, None)
              | sg # tz \<Rightarrow>
                  if length tz = 5 \<or> length tz = 8 \<or> length tz = 15 then
                    (case parse_hh_mm_ss_ff tz of
                       None \<Rightarrow> None
                     | Some (zh, zm, zs, zf) \<Rightarrow>
                         let off = ((int zh * 60 + int zm) * 60 + int zs) * 1000000 + int zf
                         in if off < 86400000000
                            then Some (h, m, s, f, Some (if sg = CHR ''-'' then - off else off))
                            else None)
                  else None))"

definition fromisoformat :: "string \<Rightarrow> pyexc + datetime" where
  "fromisoformat s =
     (case parse_isoformat_date (take 10 s) of
        None \<Rightarrow> Inl ValueError
      | Some (y, mo, d) \<Rightarrow>
          (case (if length s = 10 then Some (0, 0, 0, 0, None)
                 else parse_isoformat_time (drop 11 s)) of
             None \<Rightarrow> Inl ValueError
           | Some (h, mi, sec, us, off) \<Rightarrow>
               if 1 \<le> y \<and> y \<le> 9999 \<and> 1 \<le> mo \<and> mo \<le> 12 \<and> 1 \<le> d \<and> d \<le> days_in_month y mo
                  \<and> h < 24 \<and> mi < 60 \<and> sec < 60
               then Inr \<lparr>dt_year = y, dt_month = mo, dt_day = d, dt_hour = h, dt_minute = mi,
                         dt_second = sec, dt_microsecond = us, dt_utcoffset = off\<rparr>
               else Inl ValueError))"

text \<open>
  \<open>dt.strftime("%B %d, %Y %I:%M %p")\<close> in the C locale: the month's name, the day in
  two digits, the year in four, the hour on the 12-hour clock and the minute in two
  digits each, and \<open>AM\<close> or \<open>PM\<close>. The label shows the fields as they were parsed: the
  UTC offset is neither printed nor applied.
\<close>

definition month_name :: "nat \<Rightarrow> string" where
  "month_name m =
     (if m = 1 then ''January'' else if m = 2 then ''February'' else if m = 3 then ''March''
      else if m = 4 then ''April'' else if m = 5 then ''May'' else if m = 6 then ''June''
      else if m = 7 then ''July'' else if m = 8 then ''August'' else if m = 9 then ''September''
      else if m = 10 then ''October'' else if m = 11 then ''November'' else ''December'')"

definition strftime_label :: "datetime \<Rightarrow> string" where
  "strftime_label dt =
     month_name (dt_month dt) @ '' '' @ zero_pad 2 (nat_str (dt_day dt)) @ '', ''
       @ zero_pad 4 (nat_str (dt_year dt)) @ '' ''
       @ zero_pad 2 (nat_str (if dt_hour dt mod 12 = 0 then 12 else dt_hour dt mod 12)) @ '':''
       @ zero_pad 2 (nat_str (dt_minute dt)) @ '' ''
       @ (if dt_hour dt < 12 then ''AM'' else ''PM'')"

subsection \<open>\<open>_format_datetime\<close>\<close>

text \<open>
  \<^verbatim>\<open>
  def _format_datetime(iso_str: str) -> str:
      try:
          dt = datetime.fromisoformat(iso_str.replace("Z", "+00:00"))
          return dt.strftime("%B %d, %Y %I:%M %p")
      except Exception:
          return iso_str
  \<close>
  \<open>format_datetime_try\<close> is the body of the \<open>try\<close>; a value that is not a string has
  no \<open>replace\<close>. The callers pass \<open>booking.get(...)\<close>, which is any value.
\<close>

definition format_datetime_try :: "pyval \<Rightarrow> pyexc + pyval" where
  "format_datetime_try iso_str =
     (case iso_str of
        PStr s \<Rightarrow> bindE (fromisoformat (str_replace (CHR ''Z'') ''+00:00'' s))
                    (\<lambda>dt. Inr (PStr (strftime_label dt)))
      | _ \<Rightarrow> Inl AttributeError)"

definition format_datetime :: "pyval \<Rightarrow> pyval" where
  "format_datetime iso_str =
     (case format_datetime_try iso_str of Inr label \<Rightarrow> label | Inl exc \<Rightarrow> iso_str)"

subsection \<open>\<open>base64.b64encode\<close>\<close>

definition b64_char :: "nat \<Rightarrow> char" where
  "b64_char i =
     ''ABCDEFGHIJKLMNOPQRSTUVWXYZabcdefghijklmnopqrstuvwxyz0123456789+/'' ! (i mod 64)"

fun b64encode :: "string \<Rightarrow> string" where
  "b64encode [] = []"
| "b64encode [a] =
     (let n = (of_char a :: nat) * 16
      in [b64_char (n div 64), b64_char n, CHR ''='', CHR ''=''])"
| "b64encode [a, b] =
     (let n = ((of_char a :: nat) * 256 + of_char b) * 4
      in [b64_char (n div 4096), b64_char (n div 64), b64_char n, CHR ''=''])"
| "b64encode (a # b # c # rest) =
     (let n = ((of_char a :: nat) * 256 + of_char b) * 256 + of_char c
      in [b64_char (n div 262144), b64_char (n div 4096), b64_char (n div 64), b64_char n]
           @ b64encode rest)"

subsection \<open>The environment of the module\<close>

text \<open>
  What the module imports and cannot be read from its source is a parameter of the model:
  \<^item> \<open>get_settings()\<close>: the two settings the module reads;
  \<^item> the module-level flags \<open>PDF_ENABLED\<close> and \<open>RESEND_AVAILABLE\<close>, set when the
    imports of \<open>fpdf\<close> and \<open>resend\<close> succeed;
  \<^item> \<open>py_repr\<close>: the text Python gives a float, a list or a dict;
  \<^item> \<open>fpdf_output\<close>: what the PDF library makes of the calls on an \<open>FPDF\<close> object, up to
    \<open>pdf.output(dest="S").encode("latin-1")\<close>: the bytes, or an exception;
  \<^item> \<open>emails_send\<close>: whether \<open>resend.Emails.send\<close> raises on a request;
  \<^item> \<open>update_error\<close>: whether the data store's \<open>update_payment_status\<close> raises.
\<close>

datatype pdf_op =
    AddPage
  | SetFont string string nat
  | Cell nat nat string nat
  | Ln nat
  | MultiCell nat nat string

record attachment =
  att_filename :: string
  att_content :: string
  att_encoding :: string

record email_request =
  req_from :: "string option"
  req_to :: "pyval list"
  req_subject :: string
  req_text :: string
  req_html :: string
  req_attachments :: "attachment list option"

record env =
  RESEND_API_KEY :: "string option"
  RESEND_FROM :: "string option"
  PDF_ENABLED :: bool
  RESEND_AVAILABLE :: bool
  py_repr :: "pyval \<Rightarrow> string"
  fpdf_output :: "pdf_op list \<Rightarrow> pyexc + string"
  emails_send :: "email_request \<Rightarrow> pyexc option"
  update_error :: "pyexc option"

subsection \<open>The data store\<close>

text \<open>
  The client of the data store (\<open>app.services.supabase\<close>) is not part of the source.
  The store is a state: the booking and the payment row of a booking id, the profile of
  a user id.
\<close>

record store =
  bookings :: "string \<Rightarrow> pydict option"
  payments :: "string \<Rightarrow> pydict option"
  profiles :: "pyval \<Rightarrow> pydict option"

text \<open>Modelled from the spec: \<open>get_booking_by_id(id) -> Booking|null\<close>.\<close>

definition get_booking_by_id :: "store \<Rightarrow> string \<Rightarrow> pydict option" where
  "get_booking_by_id st booking_id = bookings st booking_id"

text \<open>Modelled from the spec: \<open>get_payment_by_booking(bookingId) -> Payment|null\<close>.\<close>

definition get_payment_by_booking :: "store \<Rightarrow> string \<Rightarrow> pydict option" where
  "get_payment_by_booking st booking_id = payments st booking_id"

text \<open>Modelled from the spec: \<open>get_user_profile(userId) -> UserProfile|null\<close>.\<close>

definition get_user_profile :: "store \<Rightarrow> pyval \<Rightarrow> pydict option" where
  "get_user_profile st user_id = profiles st user_id"

text \<open>
  Modelled from the spec:
  \<open>update_payment_status(bookingId, paymentStatus, transactionId, receiptUrl) -> void\<close>,
  the update of the payment record: it raises and changes nothing, or it writes the three
  fields into the payment row of the booking (a booking without a row has none after it
  either).
\<close>

definition update_payment_status ::
  "env \<Rightarrow> store \<Rightarrow> string \<Rightarrow> pyval \<Rightarrow> pyval \<Rightarrow> pyval \<Rightarrow> pyexc + store" where
  "update_payment_status env st booking_id payment_status transaction_id receipt_url =
     (case update_error env of
        Some exc \<Rightarrow> Inl exc
      | None \<Rightarrow>
          Inr (st\<lparr>payments := (payments st)
                 (booking_id :=
                    map_option
                      (\<lambda>row. AList.update ''receipt_url'' receipt_url
                               (AList.update ''transaction_id'' transaction_id
                                 (AList.update ''payment_status'' payment_status row)))
                      (payments st booking_id))\<rparr>))"

subsection \<open>Effects\<close>

text \<open>
  What a run does, in the order it does it: a \<open>print\<close>, a read of the data store, the
  request handed to \<open>resend.Emails.send\<close>, the completed call of
  \<open>_send_email_with_attachment\<close> with its arguments and the exception it raised, if any,
  and the completed call of \<open>update_payment_status\<close> likewise.
\<close>

datatype event =
    Print string
  | GetBooking string
  | GetPayment string
  | GetProfile pyval
  | ResendSend email_request
  | Dispatched pyval string string "string option" string "pyexc option"
  | UpdatePayment string pyval pyval pyval "pyexc option"

record run =
  outcome :: "pyexc + unit"
  trace :: "event list"
  store_after :: store

definition returns :: "event list \<Rightarrow> store \<Rightarrow> run" where
  "returns t st = \<lparr>outcome = Inr (), trace = t, store_after = st\<rparr>"

definition raises :: "pyexc \<Rightarrow> event list \<Rightarrow> store \<Rightarrow> run" where
  "raises exc t st = \<lparr>outcome = Inl exc, trace = t, store_after = st\<rparr>"

fun is_dispatch :: "event \<Rightarrow> bool" where
  "is_dispatch (ResendSend r) = True"
| "is_dispatch (Dispatched to_email subject body att name res) = True"
| "is_dispatch ev = False"

fun is_update :: "event \<Rightarrow> bool" where
  "is_update (UpdatePayment booking_id payment_status transaction_id receipt_url res) = True"
| "is_update ev = False"

subsection \<open>\<open>_build_booking_pdf\<close>\<close>

text \<open>
  \<open>user_profile or {}\<close> for an \<open>Optional[dict]\<close>, and the expression
  \<open>f"{float(booking.get('total_amount', 0) or 0):.2f}"\<close>, which both the PDF and the
  email body contain.
\<close>

definition or_empty :: "pydict option \<Rightarrow> pydict" where
  "or_empty d = (case d of None \<Rightarrow> [] | Some kvs \<Rightarrow> kvs)"

definition amount_2f :: "pydict \<Rightarrow> pyexc + string" where
  "amount_2f booking =
     bindE (py_float (py_or (dict_get booking ''total_amount'' (PInt 0)) (PInt 0)))
       (\<lambda>x. Inr (format_2f x))"

text \<open>
  The list \<open>summary_lines\<close> of the source (lines 50 to 61), its elements evaluated in
  order. \<open>user_profile\<close> is an \<open>Optional[dict]\<close>: \<open>None\<close> has no \<open>get\<close>, and the
  status must be a string to have \<open>capitalize\<close>.
\<close>

definition summary_lines :: "env \<Rightarrow> pydict \<Rightarrow> pydict option \<Rightarrow> pyexc + string list" where
  "summary_lines env booking user_profile =
     (let space = py_or (dict_get booking ''spaces'' PNone) (PDict []);
          str = py_str (py_repr env)
      in bindE (py_get (opt_dict user_profile) ''full_name'' PNone) (\<lambda>full_name.
         bindE (py_get (opt_dict user_profile) ''email'' PNone) (\<lambda>email.
         bindE (py_get space ''name'' (PStr [])) (\<lambda>name.
         bindE (py_get space ''location'' (PStr [])) (\<lambda>location.
         bindE (amount_2f booking) (\<lambda>amount.
         bindE (case dict_get booking ''status'' (PStr []) of
                  PStr s \<Rightarrow> Inr (py_or (PStr (capitalize s)) (PStr ''Confirmed''))
                | _ \<Rightarrow> Inl AttributeError) (\<lambda>status.
         Inr [''Booking ID: '' @ str (dict_get booking ''id'' (PStr [])),
              ''Guest: '' @ str (py_or (py_or full_name email) (PStr ''Guest'')),
              (if truthy (opt_dict user_profile)
               then ''Email: '' @ str (dict_get (or_empty user_profile) ''email'' (PStr []))
               else []),
              ''Space: '' @ str name,
              ''Location: '' @ str (py_or location (PStr ''Kuala Lumpur'')),
              ''Date: '' @ str (format_datetime (dict_get booking ''start_time'' (PStr []))),
              ''End: '' @ str (format_datetime (dict_get booking ''end_time'' (PStr []))),
              ''Attendees: '' @ str (dict_get booking ''attendees_count'' (PStr [])),
              ''Total Paid: RM'' @ amount,
              ''Status: '' @ str status])))))))"

text \<open>
  The calls on the \<open>FPDF\<close> object: the title, one \<open>multi_cell\<close> for each summary line
  that is not the empty string (\<open>if not line: continue\<close>), the closing note.
\<close>

definition pdf_ops :: "string list \<Rightarrow> pdf_op list" where
  "pdf_ops lines =
     [AddPage, SetFont ''Helvetica'' ''B'' 16, Cell 0 12 ''Booking Confirmation'' 1,
      SetFont ''Helvetica'' [] 11, Ln 4]
     @ map (MultiCell 0 8) (filter (\<lambda>line. line \<noteq> []) lines)
     @ [Ln 6, SetFont ''Helvetica'' [] 10,
        MultiCell 0 6
          ''Thank you for choosing Infinity8. Please present this confirmation upon arrival.'']"

definition build_booking_pdf :: "env \<Rightarrow> pydict \<Rightarrow> pydict option \<Rightarrow> pyexc + string option" where
  "build_booking_pdf env booking user_profile =
     (if \<not> PDF_ENABLED env then Inr None
      else bindE (summary_lines env booking user_profile) (\<lambda>lines.
           bindE (fpdf_output env (pdf_ops lines)) (\<lambda>bytes. Inr (Some bytes))))"

subsection \<open>\<open>_send_email_with_attachment\<close>\<close>

text \<open>
  The result and the effects: the request handed to the provider, if the call gets
  that far. \<open>attachment\<close> is an \<open>Optional[bytes]\<close>; \<open>if attachment\<close> holds for bytes
  that are not empty.
\<close>

definition send_email_with_attachment ::
  "env \<Rightarrow> pyval \<Rightarrow> string \<Rightarrow> string \<Rightarrow> string option \<Rightarrow> string \<Rightarrow> (pyexc + unit) \<times> event list" where
  "send_email_with_attachment env to_email subject body attachment attachment_name =
     (if \<not> (truthy (opt_str (RESEND_API_KEY env)) \<and> truthy (opt_str (RESEND_FROM env))) then
        (Inl (RuntimeError ''Resend configuration is missing; cannot send email.''), [])
      else if \<not> RESEND_AVAILABLE env then
        (Inl (RuntimeError ''Resend SDK not installed; cannot send email.''), [])
      else
        let attachments =
              (if truthy (opt_str attachment)
               then [\<lparr>att_filename = attachment_name,
                      att_content = b64encode (case attachment of Some bytes \<Rightarrow> bytes | None \<Rightarrow> []),
                      att_encoding = ''base64''\<rparr>]
               else []);
            html_body = str_join ''<br>'' (splitlines body);
            request = \<lparr>req_from = RESEND_FROM env, req_to = [to_email], req_subject = subject,
                       req_text = body, req_html = html_body,
                       req_attachments = (if attachments = [] then None else Some attachments)\<rparr>
        in ((case emails_send env request of Some exc \<Rightarrow> Inl exc | None \<Rightarrow> Inr ()),
            [ResendSend request]))"

subsection \<open>\<open>send_booking_confirmation_email\<close>\<close>

text \<open>
  The subject (line 156) and the list \<open>body_lines\<close> (lines 158 to 172) of the source.
  \<open>space\<close> is \<open>booking.get("spaces") or {}\<close>, which has \<open>get\<close> only if it is a dict;
  \<open>user_profile\<close> is what \<open>get_user_profile\<close> returned, and line 159 calls its \<open>get\<close>
  as it is.
\<close>

definition email_subject :: "env \<Rightarrow> pyval \<Rightarrow> pyval \<Rightarrow> pyexc + string" where
  "email_subject env space date_label =
     bindE (py_get space ''name'' (PStr ''Your space'')) (\<lambda>name.
     Inr (''Booking confirmed: '' @ py_str (py_repr env) name @ '' on ''
            @ py_str (py_repr env) date_label))"

definition body_lines ::
  "env \<Rightarrow> pydict \<Rightarrow> pydict option \<Rightarrow> pyval \<Rightarrow> pyval \<Rightarrow> pyexc + string list" where
  "body_lines env booking user_profile space date_label =
     (let str = py_str (py_repr env)
      in bindE (py_get (opt_dict user_profile) ''full_name'' PNone) (\<lambda>full_name.
         bindE (py_get space ''name'' (PStr [])) (\<lambda>name.
         bindE (py_get space ''location'' (PStr [])) (\<lambda>location.
         bindE (amount_2f booking) (\<lambda>amount.
         Inr [''Hi '' @ str (py_or full_name (PStr ''there'')) @ '','',
              [],
              ''Your booking is confirmed. Details:'',
              ''- Space: '' @ str name,
              ''- Location: '' @ str (py_or location (PStr ''Kuala Lumpur'')),
              ''- Starts: '' @ str date_label,
              ''- Ends: '' @ str (format_datetime (dict_get booking ''end_time'' (PStr []))),
              ''- Attendees: '' @ str (dict_get booking ''attendees_count'' (PStr [])),
              ''- Amount: RM'' @ amount,
              [],
              ''The confirmation PDF is attached. We look forward to hosting you!'',
              [],
              ''-- Infinity8 Team''])))))"

text \<open>
  The workflow. The \<open>await\<close>s run one after the other; a run is its result (\<open>None\<close>, or
  the exception that leaves the function), its effects in order, and the data store it
  leaves behind. The function is given in three parts, each with the effects \<open>t\<close> that
  went before it: \<open>mark_sent\<close> is the end of the function (lines 191 to 201),
  \<open>dispatch\<close> the \<open>try\<close> statement before it (lines 176 to 189), and
  \<open>send_booking_confirmation_email\<close> the function from its first line.
\<close>

definition mark_sent :: "env \<Rightarrow> store \<Rightarrow> string \<Rightarrow> pydict option \<Rightarrow> event list \<Rightarrow> run" where
  "mark_sent env st booking_id payment t =
     (if truthy (opt_dict payment) then
        let payment_status = dict_get (or_empty payment) ''payment_status'' (PStr ''completed'');
            transaction_id = dict_get (or_empty payment) ''transaction_id'' PNone;
            receipt_url = py_or (dict_get (or_empty payment) ''receipt_url'' PNone)
                            (PStr ''email_sent'')
        in
        case update_payment_status env st booking_id payment_status transaction_id receipt_url of
          Inl exc \<Rightarrow>
            returns (t @ [UpdatePayment booking_id payment_status transaction_id receipt_url
                            (Some exc),
                          Print (''Warning: could not mark confirmation email as sent (''
                                 @ booking_id @ ''): '' @ exc_str exc)]) st
        | Inr st' \<Rightarrow>
            returns (t @ [UpdatePayment booking_id payment_status transaction_id receipt_url
                            None]) st'
      else returns t st)"

definition dispatch ::
  "env \<Rightarrow> store \<Rightarrow> string \<Rightarrow> pydict option \<Rightarrow> pyval \<Rightarrow> string \<Rightarrow> string \<Rightarrow> string option
     \<Rightarrow> event list \<Rightarrow> run" where
  "dispatch env st booking_id payment recipient subject body pdf_bytes t =
     (let attachment_name = ''booking-'' @ booking_id @ ''.pdf'';
          sent = send_email_with_attachment env recipient subject body pdf_bytes attachment_name
      in
      case fst sent of
        Inl exc \<Rightarrow>
          returns (t @ snd sent
                     @ [Dispatched recipient subject body pdf_bytes attachment_name (Some exc),
                        Print (''Failed to send booking confirmation email for ''
                               @ booking_id @ '': '' @ exc_str exc)]) st
      | Inr u \<Rightarrow>
          mark_sent env st booking_id payment
            (t @ snd sent @ [Dispatched recipient subject body pdf_bytes attachment_name None]))"

definition send_booking_confirmation_email ::
  "env \<Rightarrow> store \<Rightarrow> string \<Rightarrow> string option \<Rightarrow> run" where
  "send_booking_confirmation_email env st booking_id fallback_email =
     (if \<not> truthy (opt_str (RESEND_API_KEY env)) \<or> \<not> truthy (opt_str (RESEND_FROM env)) then
        returns [Print ''Resend not configured; skipping booking confirmation email.''] st
      else if \<not> RESEND_AVAILABLE env then
        returns [Print ''Resend SDK not installed; skipping booking confirmation email.''] st
      else
        let t1 = [GetBooking booking_id] in
        case (if truthy (opt_dict (get_booking_by_id st booking_id))
              then get_booking_by_id st booking_id else None) of
          None \<Rightarrow>
            returns (t1 @ [Print (''Booking '' @ booking_id
                                   @ '' not found; cannot send confirmation email.'')]) st
        | Some booking \<Rightarrow>
            let payment = get_payment_by_booking st booking_id;
                t2 = t1 @ [GetPayment booking_id]
            in
            if truthy (opt_dict payment)
               \<and> dict_get (or_empty payment) ''receipt_url'' PNone = PStr ''email_sent''
            then returns t2 st
            else
              let user_profile = get_user_profile st (dict_get booking ''user_id'' (PStr []));
                  t3 = t2 @ [GetProfile (dict_get booking ''user_id'' (PStr []))];
                  recipient = py_or (dict_get (or_empty user_profile) ''email'' PNone)
                                (opt_str fallback_email)
              in
              if \<not> truthy recipient then
                returns (t3 @ [Print (''No email available for booking '' @ booking_id
                                       @ ''; skipping send.'')]) st
              else
                let space = py_or (dict_get booking ''spaces'' PNone) (PDict []);
                    date_label = format_datetime (dict_get booking ''start_time'' (PStr []))
                in
                case email_subject env space date_label of
                  Inl exc \<Rightarrow> raises exc t3 st
                | Inr subject \<Rightarrow>
                    (case body_lines env booking user_profile space date_label of
                       Inl exc \<Rightarrow> raises exc t3 st
                     | Inr lines \<Rightarrow>
                         (case build_booking_pdf env booking (Some (or_empty user_profile)) of
                            Inl exc \<Rightarrow> raises exc t3 st
                          | Inr pdf_bytes \<Rightarrow>
                              dispatch env st booking_id payment recipient subject
                                (str_join [LF] lines) pdf_bytes t3)))"

text \<open>
  The workflow invoked several times in a row on the same booking, each invocation on
  the data store the one before it left: the effects of all invocations, in order, and
  the data store at the end. An invocation that raises leaves the data store as it is.
\<close>

fun invocations :: "env \<Rightarrow> store \<Rightarrow> string \<Rightarrow> string option list \<Rightarrow> event list \<times> store" where
  "invocations env st booking_id [] = ([], st)"
| "invocations env st booking_id (fallback_email # rest) =
     (let r = send_booking_confirmation_email env st booking_id fallback_email;
          later = invocations env (store_after r) booking_id rest
      in (trace r @ fst later, snd later))"

subsection \<open>Scenarios\<close>

text \<open>
  Concrete inputs on which the theorems below are instantiated: an environment in
  which Resend is configured and installed, with the answer of the provider as a
  parameter; the booking \<open>B1\<close> of user \<open>U1\<close>; a data store that holds one booking under
  the id \<open>B1\<close>, with its payment row and the profile of \<open>U1\<close>, if any.
\<close>

definition scenario_env :: "bool \<Rightarrow> pyexc option \<Rightarrow> env" where
  "scenario_env pdf provider =
     \<lparr>RESEND_API_KEY = Some ''re_test_key'', RESEND_FROM = Some ''bookings@infinity8.example'',
      PDF_ENABLED = pdf, RESEND_AVAILABLE = True, py_repr = (\<lambda>v. ''<repr>''),
      fpdf_output = (\<lambda>ops. Inr ''%PDF''), emails_send = (\<lambda>request. provider),
      update_error = None\<rparr>"

definition booking_B1 :: pydict where
  "booking_B1 =
     [(''id'', PStr ''B1''), (''user_id'', PStr ''U1''),
      (''spaces'', PDict [(''name'', PStr ''Sky Loft''), (''location'', PStr ''KL'')]),
      (''start_time'', PStr ''2024-01-01T10:00:00Z''),
      (''end_time'', PStr ''2024-01-01T12:00:00Z''),
      (''attendees_count'', PInt 4),
      (''total_amount'', PFloat (Finite False (301 / 2)))]"

definition profile_ann :: pydict where
  "profile_ann = [(''email'', PStr ''a@x.com''), (''full_name'', PStr ''Ann'')]"

definition scenario_store :: "pydict \<Rightarrow> pydict option \<Rightarrow> pydict option \<Rightarrow> store" where
  "scenario_store booking payment profile =
     \<lparr>bookings = (\<lambda>booking_id. if booking_id = ''B1'' then Some booking else None),
      payments = (\<lambda>booking_id. if booking_id = ''B1'' then payment else None),
      profiles = (\<lambda>user_id. if user_id = PStr ''U1'' then profile else None)\<rparr>"

text \<open>A payment row of \<open>B1\<close> with a given \<open>receipt_url\<close>.\<close>

definition payment_row :: "pyval \<Rightarrow> pydict" where
  "payment_row receipt_url =
     [(''booking_id'', PStr ''B1''), (''payment_status'', PStr ''completed''),
      (''transaction_id'', PStr ''T1''), (''receipt_url'', receipt_url)]"

text \<open>
  The booking \<open>B1\<close> with one field set to another value, and a booking whose space has
  an empty name and that has no attendee count.
\<close>

definition booking_with :: "string \<Rightarrow> pyval \<Rightarrow> pydict" where
  "booking_with k v = AList.update k v booking_B1"

definition booking_blank :: pydict where
  "booking_blank = [(''id'', PStr ''B2''), (''spaces'', PDict [(''name'', PStr [])])]"

text \<open>The subject and the body of the confirmation of \<open>B1\<close> for the profile above.\<close>

definition subject_B1 :: string where
  "subject_B1 = ''Booking confirmed: Sky Loft on January 01, 2024 10:00 AM''"

definition body_lines_B1 :: "string list" where
  "body_lines_B1 =
     [''Hi Ann,'', [], ''Your booking is confirmed. Details:'', ''- Space: Sky Loft'',
      ''- Location: KL'', ''- Starts: January 01, 2024 10:00 AM'',
      ''- Ends: January 01, 2024 12:00 PM'', ''- Attendees: 4'', ''- Amount: RM150.50'', [],
      ''The confirmation PDF is attached. We look forward to hosting you!'', [],
      ''-- Infinity8 Team'']"

text \<open>The requests handed to the provider in a list of effects.\<close>

fun sent_requests :: "event list \<Rightarrow> email_request list" where
  "sent_requests [] = []"
| "sent_requests (ResendSend request # evs) = request # sent_requests evs"
| "sent_requests (ev # evs) = sent_requests evs"

text \<open>
  A text whose only line ends are single \<open>\n\<close>: no other line end of \<open>splitlines\<close>
  starts anywhere in it.
\<close>

fun only_lf :: "string \<Rightarrow> bool" where
  "only_lf [] = True"
| "only_lf (c # cs) = ((c = LF \<or> line_break (c # cs) = 0) \<and> only_lf cs)"

text \<open>A space whose location is an address of two lines, as a web form submits it.\<close>

definition location_crlf :: string where
  "location_crlf = ''Level 3'' @ [CR, LF] @ ''Tower B''"

definition space_crlf :: pyval where
  "space_crlf = PDict [(''name'', PStr ''Sky Loft''), (''location'', PStr location_crlf)]"

definition body_lines_crlf :: "string list" where
  "body_lines_crlf =
     [''Hi Ann,'', [], ''Your booking is confirmed. Details:'', ''- Space: Sky Loft'',
      ''- Location: '' @ location_crlf, ''- Starts: January 01, 2024 10:00 AM'',
      ''- Ends: January 01, 2024 12:00 PM'', ''- Attendees: 4'', ''- Amount: RM150.50'', [],
      ''The confirmation PDF is attached. We look forward to hosting you!'', [],
      ''-- Infinity8 Team'']"

text \<open>
  The HTML body in the words of the claim: each newline of the plaintext body replaced by
  \<open><br>\<close>, a newline being a line end as \<open>str.splitlines\<close> knows them (\<open>\r\n\<close> is one
  newline). \<open>line_end_bytes\<close> are the bytes in which a line end can end.
\<close>

fun br_for_newlines :: "string \<Rightarrow> string" where
  "br_for_newlines [] = []"
| "br_for_newlines (c # cs) =
     (if line_break (c # cs) = 0 then c # br_for_newlines cs
      else ''<br>'' @ br_for_newlines (drop (line_break (c # cs) - 1) cs))"

definition line_end_bytes :: "char list" where
  "line_end_bytes =
     [LF, CR, CHR 0x0B, CHR 0x0C, CHR 0x1C, CHR 0x1D, CHR 0x1E, CHR 0x85, CHR 0xA8, CHR 0xA9]"

section \<open>Properties\<close>

subsection \<open>The parts of a run\<close>

lemma sent_events:
  "snd (send_email_with_attachment env a b c d e) = []
   \<or> (\<exists>r. snd (send_email_with_attachment env a b c d e) = [ResendSend r])"
  by (simp add: send_email_with_attachment_def Let_def)

lemma sent_no_update [simp]:
  "filter is_update (snd (send_email_with_attachment env a b c d e)) = []"
  using sent_events [of env a b c d e] by auto

lemma sent_not_dispatched [simp]:
  "Dispatched x1 x2 x3 x4 x5 x6 \<notin> set (snd (send_email_with_attachment env a b c d e))"
  using sent_events [of env a b c d e] by auto

lemma mark_sent_outcome [simp]: "outcome (mark_sent env st bid payment t) = Inr ()"
  by (simp add: mark_sent_def returns_def Let_def split: sum.splits)

lemma mark_sent_trace:
  "\<exists>upd. trace (mark_sent env st bid payment t) = t @ upd
     \<and> (\<forall>ev \<in> set upd. is_update ev \<or> (\<exists>m. ev = Print m))"
  by (auto simp: mark_sent_def returns_def Let_def split: sum.splits)

lemma dispatch_failed:
  "fst (send_email_with_attachment env rc sj bd pdf (''booking-'' @ bid @ ''.pdf'')) = Inl exc \<Longrightarrow>
   dispatch env st bid pay rc sj bd pdf t =
     returns (t @ snd (send_email_with_attachment env rc sj bd pdf (''booking-'' @ bid @ ''.pdf''))
                @ [Dispatched rc sj bd pdf (''booking-'' @ bid @ ''.pdf'') (Some exc),
                   Print (''Failed to send booking confirmation email for '' @ bid @ '': ''
                          @ exc_str exc)]) st"
  by (simp add: dispatch_def Let_def)

lemma dispatch_ok:
  "fst (send_email_with_attachment env rc sj bd pdf (''booking-'' @ bid @ ''.pdf'')) = Inr u \<Longrightarrow>
   dispatch env st bid pay rc sj bd pdf t =
     mark_sent env st bid pay
       (t @ snd (send_email_with_attachment env rc sj bd pdf (''booking-'' @ bid @ ''.pdf''))
          @ [Dispatched rc sj bd pdf (''booking-'' @ bid @ ''.pdf'') None])"
  by (simp add: dispatch_def Let_def)

text \<open>
  A run either dispatches nothing, updates nothing and leaves the data store as it is,
  or it is the dispatch of the body built from the booking, after the three reads.
\<close>

lemma send_cases:
  fixes env st booking_id fallback_email
  defines "r \<equiv> send_booking_confirmation_email env st booking_id fallback_email"
  shows "(filter is_dispatch (trace r) = [] \<and> filter is_update (trace r) = [] \<and> store_after r = st)
    \<or> (\<exists>booking recipient subject lines pdf_bytes.
          bookings st booking_id = Some booking
        \<and> \<not> (truthy (opt_dict (payments st booking_id))
              \<and> dict_get (or_empty (payments st booking_id)) ''receipt_url'' PNone
                  = PStr ''email_sent'')
        \<and> body_lines env booking (profiles st (dict_get booking ''user_id'' (PStr [])))
             (py_or (dict_get booking ''spaces'' PNone) (PDict []))
             (format_datetime (dict_get booking ''start_time'' (PStr []))) = Inr lines
        \<and> r = dispatch env st booking_id (payments st booking_id) recipient subject
                 (str_join [LF] lines) pdf_bytes
                 [GetBooking booking_id, GetPayment booking_id,
                  GetProfile (dict_get booking ''user_id'' (PStr []))])"
  unfolding r_def
  apply (simp add: send_booking_confirmation_email_def returns_def raises_def Let_def
        get_booking_by_id_def get_payment_by_booking_def get_user_profile_def
      split: option.splits sum.splits)
  apply blast
  done

lemma in_set_filter_nonempty: "x \<in> set xs \<Longrightarrow> P x \<Longrightarrow> filter P xs \<noteq> []"
  by (auto simp: filter_empty_conv)

lemma sent_requests_append [simp]:
  "sent_requests (t @ u) = sent_requests t @ sent_requests u"
  by (induction t rule: sent_requests.induct) auto

lemma sent_requests_no_dispatch: "filter is_dispatch t = [] \<Longrightarrow> sent_requests t = []"
  by (induction t rule: sent_requests.induct) (auto split: if_splits)

lemma sent_requests_mark_sent [simp]:
  "sent_requests (trace (mark_sent env st bid pay t)) = sent_requests t"
  by (simp add: mark_sent_def returns_def Let_def split: sum.splits)

lemma sent_requests_dispatch:
  "sent_requests (trace (dispatch env st bid pay rc sj bd pdf t)) =
     sent_requests t
     @ sent_requests (snd (send_email_with_attachment env rc sj bd pdf
                             (''booking-'' @ bid @ ''.pdf'')))"
  by (simp add: dispatch_def returns_def Let_def split: sum.splits)

lemma sent_request_shape:
  "request \<in> set (sent_requests (snd (send_email_with_attachment env rc sj bd att nm))) \<Longrightarrow>
   req_text request = bd \<and> req_html request = str_join ''<br>'' (splitlines bd)"
  by (auto simp: send_email_with_attachment_def Let_def split: if_splits)

subsection \<open>The scenarios, evaluated\<close>

lemmas numeral_defs = nat_str.simps int_str_def zero_pad_def digit_char_def

lemmas date_defs = format_datetime_def format_datetime_try_def fromisoformat_def
  parse_isoformat_date_def parse_isoformat_time_def parse_hh_mm_ss_ff_def parse_digits_def
  is_digit_def is_sign_def digits_val_def digit_val_def days_in_month_def is_leap_def
  strftime_label_def month_name_def str_replace_def bindE_def

lemma scenario_env_sel [simp]:
  "RESEND_API_KEY (scenario_env pdf provider) = Some ''re_test_key''"
  "RESEND_FROM (scenario_env pdf provider) = Some ''bookings@infinity8.example''"
  "PDF_ENABLED (scenario_env pdf provider) = pdf"
  "RESEND_AVAILABLE (scenario_env pdf provider) = True"
  "fpdf_output (scenario_env pdf provider) ops = Inr ''%PDF''"
  "emails_send (scenario_env pdf provider) request = provider"
  "update_error (scenario_env pdf provider) = None"
  by (simp_all add: scenario_env_def)

lemma scenario_store_sel [simp]:
  "bookings (scenario_store booking payment profile) ''B1'' = Some booking"
  "payments (scenario_store booking payment profile) ''B1'' = payment"
  "profiles (scenario_store booking payment profile) (PStr ''U1'') = profile"
  by (simp_all add: scenario_store_def)

lemma booking_B1_get [simp]:
  "dict_get booking_B1 ''id'' d = PStr ''B1''"
  "dict_get booking_B1 ''user_id'' d = PStr ''U1''"
  "dict_get booking_B1 ''spaces'' d = PDict [(''name'', PStr ''Sky Loft''), (''location'', PStr ''KL'')]"
  "dict_get booking_B1 ''start_time'' d = PStr ''2024-01-01T10:00:00Z''"
  "dict_get booking_B1 ''end_time'' d = PStr ''2024-01-01T12:00:00Z''"
  "dict_get booking_B1 ''attendees_count'' d = PInt 4"
  "dict_get booking_B1 ''total_amount'' d = PFloat (Finite False (301 / 2))"
  "dict_get booking_B1 ''status'' d = d"
  "booking_B1 \<noteq> []"
  by (simp_all add: booking_B1_def dict_get_def)

lemma profile_ann_get [simp]:
  "dict_get profile_ann ''email'' d = PStr ''a@x.com''"
  "dict_get profile_ann ''full_name'' d = PStr ''Ann''"
  "profile_ann \<noteq> []"
  by (simp_all add: profile_ann_def dict_get_def)

lemma label_start [simp]:
  "format_datetime (PStr ''2024-01-01T10:00:00Z'') = PStr ''January 01, 2024 10:00 AM''"
  by (simp add: numeral_defs date_defs)

lemma label_end [simp]:
  "format_datetime (PStr ''2024-01-01T12:00:00Z'') = PStr ''January 01, 2024 12:00 PM''"
  by (simp add: numeral_defs date_defs)

lemma amount_B1 [simp]: "amount_2f booking_B1 = Inr ''150.50''"
  by (simp add: amount_2f_def py_or_def bindE_def format_2f_def round_half_even_def numeral_defs)

lemma subject_B1_eval:
  "email_subject env (PDict [(''name'', PStr ''Sky Loft''), (''location'', PStr ''KL'')])
     (PStr ''January 01, 2024 10:00 AM'') = Inr subject_B1"
  by (simp add: email_subject_def py_get_def dict_get_def bindE_def subject_B1_def)

lemma body_lines_B1_eval:
  "body_lines env booking_B1 (Some profile_ann)
     (PDict [(''name'', PStr ''Sky Loft''), (''location'', PStr ''KL'')])
     (PStr ''January 01, 2024 10:00 AM'') = Inr body_lines_B1"
  by (simp add: body_lines_def py_get_def opt_dict_def bindE_def py_or_def Let_def
      body_lines_B1_def numeral_defs)
     (simp add: dict_get_def)

lemma summary_lines_B1_eval:
  "summary_lines env booking_B1 (Some profile_ann)
   = Inr [''Booking ID: B1'', ''Guest: Ann'', ''Email: a@x.com'', ''Space: Sky Loft'',
          ''Location: KL'', ''Date: January 01, 2024 10:00 AM'',
          ''End: January 01, 2024 12:00 PM'', ''Attendees: 4'', ''Total Paid: RM150.50'',
          ''Status: Confirmed'']"
  by (simp add: summary_lines_def py_get_def opt_dict_def bindE_def py_or_def Let_def
      or_empty_def numeral_defs)
     (simp add: dict_get_def)

lemma pdf_B1_eval:
  "build_booking_pdf (scenario_env pdf provider) booking_B1 (Some profile_ann)
   = Inr (if pdf then Some ''%PDF'' else None)"
  by (simp add: build_booking_pdf_def summary_lines_B1_eval bindE_def)

text \<open>
  The run on \<open>B1\<close> with the profile of Ann and any payment row: it stops at the idempotency
  check or dispatches the confirmation to \<open>a@x.com\<close>.
\<close>

lemma scenario_run:
  "send_booking_confirmation_email (scenario_env pdf provider)
     (scenario_store booking_B1 payment (Some profile_ann)) ''B1'' fallback_email =
   (if truthy (opt_dict payment)
       \<and> dict_get (or_empty payment) ''receipt_url'' PNone = PStr ''email_sent''
    then returns [GetBooking ''B1'', GetPayment ''B1'']
           (scenario_store booking_B1 payment (Some profile_ann))
    else dispatch (scenario_env pdf provider)
           (scenario_store booking_B1 payment (Some profile_ann)) ''B1'' payment
           (PStr ''a@x.com'') subject_B1 (str_join [LF] body_lines_B1)
           (if pdf then Some ''%PDF'' else None)
           [GetBooking ''B1'', GetPayment ''B1'', GetProfile (PStr ''U1'')])"
  by (simp add: send_booking_confirmation_email_def Let_def get_booking_by_id_def
      get_payment_by_booking_def get_user_profile_def opt_dict_def opt_str_def or_empty_def
      py_or_def subject_B1_eval body_lines_B1_eval pdf_B1_eval)

lemma scenario_sent:
  "fst (send_email_with_attachment (scenario_env pdf provider) rc sj bd att name)
     = (case provider of Some exc \<Rightarrow> Inl exc | None \<Rightarrow> Inr ())"
  "sent_requests (snd (send_email_with_attachment (scenario_env pdf provider) rc sj bd att name)
                  @ evs)
     = \<lparr>req_from = Some ''bookings@infinity8.example'', req_to = [rc], req_subject = sj,
        req_text = bd, req_html = str_join ''<br>'' (splitlines bd),
        req_attachments =
          (if truthy (opt_str att)
           then Some [\<lparr>att_filename = name, att_content = b64encode (case att of Some bytes \<Rightarrow> bytes | None \<Rightarrow> []),
                       att_encoding = ''base64''\<rparr>]
           else None)\<rparr> # sent_requests evs"
  by (simp_all add: send_email_with_attachment_def Let_def opt_str_def)

lemma payment_row_get [simp]:
  "dict_get (payment_row u) ''payment_status'' d = PStr ''completed''"
  "dict_get (payment_row u) ''transaction_id'' d = PStr ''T1''"
  "dict_get (payment_row u) ''receipt_url'' d = u"
  "payment_row u \<noteq> []"
  by (simp_all add: payment_row_def dict_get_def)

subsection \<open>The idempotency check\<close>

text \<open>
  Claim C3. For a booking whose payment row has \<open>receipt_url\<close> equal to \<open>"email_sent"\<close>,
  an invocation returns normally, hands nothing to the email provider, makes no call of
  \<open>update_payment_status\<close> and leaves the data store as it is. Where Resend is configured and
  installed and the booking exists, the invocation consists of the two reads, of the
  booking and of the payment row, and returns right after the check.
\<close>

theorem already_sent_no_effects:
  fixes env st booking_id fallback_email
  defines "r \<equiv> send_booking_confirmation_email env st booking_id fallback_email"
  assumes "get_payment_by_booking st booking_id = Some payment"
    and "dict_get payment ''receipt_url'' PNone = PStr ''email_sent''"
  shows "outcome r = Inr () \<and> filter is_dispatch (trace r) = []
         \<and> filter is_update (trace r) = [] \<and> store_after r = st
         \<and> (truthy (opt_str (RESEND_API_KEY env)) \<and> truthy (opt_str (RESEND_FROM env))
              \<and> RESEND_AVAILABLE env \<and> truthy (opt_dict (get_booking_by_id st booking_id))
            \<longrightarrow> trace r = [GetBooking booking_id, GetPayment booking_id])"
proof -
  have "payment \<noteq> []"
    using assms(3) by (auto simp: dict_get_def)
  then show ?thesis
    using assms(2,3) unfolding r_def
    by (simp add: send_booking_confirmation_email_def returns_def Let_def opt_dict_def
        or_empty_def split: option.splits)
qed

theorem already_sent_no_effects_witness:
  "get_payment_by_booking
     (scenario_store booking_B1 (Some (payment_row (PStr ''email_sent''))) (Some profile_ann))
     ''B1'' = Some (payment_row (PStr ''email_sent''))
   \<and> dict_get (payment_row (PStr ''email_sent'')) ''receipt_url'' PNone = PStr ''email_sent''
   \<and> truthy (opt_str (RESEND_API_KEY (scenario_env True None)))
   \<and> truthy (opt_str (RESEND_FROM (scenario_env True None)))
   \<and> RESEND_AVAILABLE (scenario_env True None)
   \<and> truthy (opt_dict (get_booking_by_id
        (scenario_store booking_B1 (Some (payment_row (PStr ''email_sent''))) (Some profile_ann))
        ''B1''))
   \<and> trace (send_booking_confirmation_email (scenario_env True None)
        (scenario_store booking_B1 (Some (payment_row (PStr ''email_sent''))) (Some profile_ann))
        ''B1'' None) = [GetBooking ''B1'', GetPayment ''B1'']"
proof -
  let ?st = "scenario_store booking_B1 (Some (payment_row (PStr ''email_sent'')))
               (Some profile_ann)"
  have h1: "get_payment_by_booking ?st ''B1'' = Some (payment_row (PStr ''email_sent''))"
    by (simp add: get_payment_by_booking_def)
  have h2: "dict_get (payment_row (PStr ''email_sent'')) ''receipt_url'' PNone
              = PStr ''email_sent''"
    by simp
  have h3: "truthy (opt_str (RESEND_API_KEY (scenario_env True None)))
            \<and> truthy (opt_str (RESEND_FROM (scenario_env True None)))
            \<and> RESEND_AVAILABLE (scenario_env True None)
            \<and> truthy (opt_dict (get_booking_by_id ?st ''B1''))"
    by (simp add: opt_str_def opt_dict_def get_booking_by_id_def)
  show ?thesis
    using h1 h2 h3
      already_sent_no_effects [OF h1 h2, of "scenario_env True None" None]
    by blast
qed

subsection \<open>A dispatch that raises\<close>

text \<open>
  Claim C4. If the call of \<open>_send_email_with_attachment\<close> raises an exception, the workflow
  prints the line \<open>Failed to send booking confirmation email for ...\<close> with the text of the
  exception as its last effect and returns normally: the exception does not reach the
  caller, no call of \<open>update_payment_status\<close> is made, and the data store is as it was.
\<close>

theorem dispatch_failure_swallowed:
  fixes env st booking_id fallback_email
  defines "r \<equiv> send_booking_confirmation_email env st booking_id fallback_email"
  assumes "Dispatched to_email subject body attachment name (Some exc) \<in> set (trace r)"
  shows "outcome r = Inr () \<and> filter is_update (trace r) = [] \<and> store_after r = st
         \<and> last (trace r) = Print (''Failed to send booking confirmation email for ''
                                    @ booking_id @ '': '' @ exc_str exc)"
proof -
  have "filter is_dispatch (trace r) \<noteq> []"
    using assms(2) by (rule in_set_filter_nonempty) simp
  then obtain booking rc sj lines pdf where
    r: "r = dispatch env st booking_id (payments st booking_id) rc sj (str_join [LF] lines) pdf
              [GetBooking booking_id, GetPayment booking_id,
               GetProfile (dict_get booking ''user_id'' (PStr []))]"
    using send_cases [of env st booking_id fallback_email] unfolding r_def by auto
  let ?t = "[GetBooking booking_id, GetPayment booking_id,
             GetProfile (dict_get booking ''user_id'' (PStr []))]"
  let ?name = "''booking-'' @ booking_id @ ''.pdf''"
  let ?sent = "send_email_with_attachment env rc sj (str_join [LF] lines) pdf ?name"
  show ?thesis
  proof (cases "fst ?sent")
    case (Inl e)
    have tr: "r = returns (?t @ snd ?sent
                @ [Dispatched rc sj (str_join [LF] lines) pdf ?name (Some e),
                   Print (''Failed to send booking confirmation email for '' @ booking_id
                          @ '': '' @ exc_str e)]) st"
      using dispatch_failed [OF Inl] r by simp
    have "e = exc"
      using assms(2) unfolding tr by (simp add: returns_def)
    then show ?thesis
      unfolding tr by (simp add: returns_def)
  next
    case (Inr u)
    have tr: "r = mark_sent env st booking_id (payments st booking_id)
                    (?t @ snd ?sent @ [Dispatched rc sj (str_join [LF] lines) pdf ?name None])"
      using dispatch_ok [OF Inr] r by simp
    obtain upd where
      upd: "trace r = (?t @ snd ?sent
                        @ [Dispatched rc sj (str_join [LF] lines) pdf ?name None]) @ upd"
      and ev: "\<forall>ev \<in> set upd. is_update ev \<or> (\<exists>m. ev = Print m)"
      unfolding tr using mark_sent_trace by blast
    have False
      using assms(2) ev unfolding upd by auto
    then show ?thesis ..
  qed
qed

theorem dispatch_failure_swallowed_witness:
  "Dispatched (PStr ''a@x.com'') subject_B1 (str_join [LF] body_lines_B1) (Some ''%PDF'')
     ''booking-B1.pdf'' (Some (LibraryError ''provider down''))
     \<in> set (trace (send_booking_confirmation_email
                     (scenario_env True (Some (LibraryError ''provider down'')))
                     (scenario_store booking_B1 (Some (payment_row PNone)) (Some profile_ann))
                     ''B1'' None))
   \<and> outcome (send_booking_confirmation_email
                (scenario_env True (Some (LibraryError ''provider down'')))
                (scenario_store booking_B1 (Some (payment_row PNone)) (Some profile_ann))
                ''B1'' None) = Inr ()
   \<and> last (trace (send_booking_confirmation_email
                (scenario_env True (Some (LibraryError ''provider down'')))
                (scenario_store booking_B1 (Some (payment_row PNone)) (Some profile_ann))
                ''B1'' None))
       = Print ''Failed to send booking confirmation email for B1: provider down''"
proof -
  let ?env = "scenario_env True (Some (LibraryError ''provider down''))"
  let ?st = "scenario_store booking_B1 (Some (payment_row PNone)) (Some profile_ann)"
  have h: "Dispatched (PStr ''a@x.com'') subject_B1 (str_join [LF] body_lines_B1) (Some ''%PDF'')
             ''booking-B1.pdf'' (Some (LibraryError ''provider down''))
           \<in> set (trace (send_booking_confirmation_email ?env ?st ''B1'' None))"
    by (simp add: scenario_run opt_dict_def or_empty_def dispatch_def Let_def scenario_sent
        returns_def)
  show ?thesis
    using h dispatch_failure_swallowed [OF h] by simp
qed

text \<open>
  The run on \<open>B1\<close> in any environment in which Resend is configured and installed and the
  PDF is built, on any data store that holds the booking and Ann's profile.
\<close>

lemma run_B1:
  assumes "truthy (opt_str (RESEND_API_KEY env))" and "truthy (opt_str (RESEND_FROM env))"
    and "RESEND_AVAILABLE env"
    and "get_booking_by_id st ''B1'' = Some booking_B1"
    and "get_user_profile st (PStr ''U1'') = Some profile_ann"
    and "build_booking_pdf env booking_B1 (Some profile_ann) = Inr pdf_bytes"
  shows "send_booking_confirmation_email env st ''B1'' fallback_email =
   (if truthy (opt_dict (get_payment_by_booking st ''B1''))
       \<and> dict_get (or_empty (get_payment_by_booking st ''B1'')) ''receipt_url'' PNone
           = PStr ''email_sent''
    then returns [GetBooking ''B1'', GetPayment ''B1''] st
    else dispatch env st ''B1'' (get_payment_by_booking st ''B1'') (PStr ''a@x.com'') subject_B1
           (str_join [LF] body_lines_B1) pdf_bytes
           [GetBooking ''B1'', GetPayment ''B1'', GetProfile (PStr ''U1'')])"
  using assms
  by (simp add: send_booking_confirmation_email_def Let_def opt_dict_def or_empty_def
      py_or_def subject_B1_eval body_lines_B1_eval)

lemma sent_accepted:
  assumes "truthy (opt_str (RESEND_API_KEY env))" and "truthy (opt_str (RESEND_FROM env))"
    and "RESEND_AVAILABLE env"
  shows "send_email_with_attachment env rc sj bd att name =
     ((case emails_send env
              \<lparr>req_from = RESEND_FROM env, req_to = [rc], req_subject = sj, req_text = bd,
                req_html = str_join ''<br>'' (splitlines bd),
                req_attachments =
                  (if truthy (opt_str att)
                   then Some [\<lparr>att_filename = name,
                               att_content = b64encode (case att of Some bytes \<Rightarrow> bytes
                                                                   | None \<Rightarrow> []),
                               att_encoding = ''base64''\<rparr>]
                   else None)\<rparr> of
         Some exc \<Rightarrow> Inl exc | None \<Rightarrow> Inr ()),
      [ResendSend
         \<lparr>req_from = RESEND_FROM env, req_to = [rc], req_subject = sj, req_text = bd,
           req_html = str_join ''<br>'' (splitlines bd),
           req_attachments =
             (if truthy (opt_str att)
              then Some [\<lparr>att_filename = name,
                          att_content = b64encode (case att of Some bytes \<Rightarrow> bytes
                                                              | None \<Rightarrow> []),
                          att_encoding = ''base64''\<rparr>]
              else None)\<rparr>])"
  using assms by (simp add: send_email_with_attachment_def Let_def)

subsection \<open>\<open>_format_datetime\<close>\<close>



subsection \<open>The scenario of the spec\<close>

text \<open>
  Claim C8. Booking \<open>B1\<close> exists and has no payment row; the profile of its user has the
  email \<open>a@x.com\<close> and the name Ann; the space is Sky Loft in KL, from
  \<open>2024-01-01T10:00:00Z\<close> to \<open>2024-01-01T12:00:00Z\<close>, 4 attendees, total 150.5. Where Resend
  is configured and installed, the PDF is built (or PDFs are disabled) and the provider
  accepts the request, the workflow hands exactly one request to the provider, addressed to
  \<open>a@x.com\<close> with the subject \<open>Booking confirmed: Sky Loft on January 01, 2024 10:00 AM\<close>,
  makes no call of \<open>update_payment_status\<close>, and returns.
\<close>

theorem scenario_B1_without_payment:
  fixes env st fallback_email
  defines "r \<equiv> send_booking_confirmation_email env st ''B1'' fallback_email"
  assumes "truthy (opt_str (RESEND_API_KEY env))" and "truthy (opt_str (RESEND_FROM env))"
    and "RESEND_AVAILABLE env"
    and "get_booking_by_id st ''B1'' = Some booking_B1"
    and "get_payment_by_booking st ''B1'' = None"
    and "get_user_profile st (PStr ''U1'') = Some profile_ann"
    and "build_booking_pdf env booking_B1 (Some profile_ann) = Inr pdf_bytes"
    and "\<forall>request. emails_send env request = None"
  shows "\<exists>request.
           trace r = [GetBooking ''B1'', GetPayment ''B1'', GetProfile (PStr ''U1''),
                      ResendSend request,
                      Dispatched (PStr ''a@x.com'') subject_B1 (str_join [LF] body_lines_B1)
                        pdf_bytes ''booking-B1.pdf'' None]
           \<and> req_to request = [PStr ''a@x.com'']
           \<and> req_subject request = ''Booking confirmed: Sky Loft on January 01, 2024 10:00 AM''
           \<and> req_text request = str_join [LF] body_lines_B1
           \<and> filter is_update (trace r) = [] \<and> outcome r = Inr () \<and> store_after r = st"
  unfolding r_def
  using assms(2-)
  by (simp add: run_B1 [where pdf_bytes = pdf_bytes] opt_dict_def dispatch_def Let_def
      sent_accepted mark_sent_def returns_def subject_B1_def)

theorem scenario_B1_without_payment_witness:
  "truthy (opt_str (RESEND_API_KEY (scenario_env False None)))
   \<and> truthy (opt_str (RESEND_FROM (scenario_env False None)))
   \<and> RESEND_AVAILABLE (scenario_env False None)
   \<and> get_booking_by_id (scenario_store booking_B1 None (Some profile_ann)) ''B1''
       = Some booking_B1
   \<and> get_payment_by_booking (scenario_store booking_B1 None (Some profile_ann)) ''B1'' = None
   \<and> get_user_profile (scenario_store booking_B1 None (Some profile_ann)) (PStr ''U1'')
       = Some profile_ann
   \<and> build_booking_pdf (scenario_env False None) booking_B1 (Some profile_ann) = Inr None
   \<and> (\<forall>request. emails_send (scenario_env False None) request = None)
   \<and> map req_subject (sent_requests (trace (send_booking_confirmation_email
        (scenario_env False None) (scenario_store booking_B1 None (Some profile_ann))
        ''B1'' None)))
       = [''Booking confirmed: Sky Loft on January 01, 2024 10:00 AM'']"
proof -
  let ?env = "scenario_env False None"
  let ?st = "scenario_store booking_B1 None (Some profile_ann)"
  have h1: "truthy (opt_str (RESEND_API_KEY ?env))"
    and h2: "truthy (opt_str (RESEND_FROM ?env))"
    and h3: "RESEND_AVAILABLE ?env"
    and h4: "get_booking_by_id ?st ''B1'' = Some booking_B1"
    and h5: "get_payment_by_booking ?st ''B1'' = None"
    and h6: "get_user_profile ?st (PStr ''U1'') = Some profile_ann"
    and h7: "build_booking_pdf ?env booking_B1 (Some profile_ann) = Inr None"
    and h8: "\<forall>request. emails_send ?env request = None"
    by (simp_all add: opt_str_def get_booking_by_id_def get_payment_by_booking_def
        get_user_profile_def pdf_B1_eval)
  obtain request where
    "trace (send_booking_confirmation_email ?env ?st ''B1'' None)
       = [GetBooking ''B1'', GetPayment ''B1'', GetProfile (PStr ''U1''), ResendSend request,
          Dispatched (PStr ''a@x.com'') subject_B1 (str_join [LF] body_lines_B1) None
            ''booking-B1.pdf'' None]"
    and "req_subject request = ''Booking confirmed: Sky Loft on January 01, 2024 10:00 AM''"
    using scenario_B1_without_payment [OF h1 h2 h3 h4 h5 h6 h7 h8, of None] by blast
  then have "map req_subject (sent_requests (trace (send_booking_confirmation_email ?env ?st
               ''B1'' None)))
             = [''Booking confirmed: Sky Loft on January 01, 2024 10:00 AM'']"
    by simp
  then show ?thesis
    using h1 h2 h3 h4 h5 h6 h7 h8 by blast
qed

subsection \<open>A booking without a profile\<close>

text \<open>
  Claim C5 says that the workflow never raises. The run below does: the booking exists,
  its user has no profile, and the caller passes a fallback address. The recipient is
  resolved with \<open>(user_profile or {})\<close> (line 149), but the greeting on line 159 calls
  \<open>user_profile.get\<close> on \<open>None\<close>. The \<open>AttributeError\<close> leaves the function, before anything
  is sent.
\<close>

theorem missing_profile_raises:
  "outcome (send_booking_confirmation_email (scenario_env True None)
              (scenario_store booking_B1 None None) ''B1'' (Some ''a@x.com''))
     = Inl AttributeError
   \<and> trace (send_booking_confirmation_email (scenario_env True None)
              (scenario_store booking_B1 None None) ''B1'' (Some ''a@x.com''))
     = [GetBooking ''B1'', GetPayment ''B1'', GetProfile (PStr ''U1'')]"
  by (simp add: send_booking_confirmation_email_def Let_def get_booking_by_id_def
      get_payment_by_booking_def get_user_profile_def opt_dict_def opt_str_def or_empty_def
      py_or_def subject_B1_eval body_lines_def py_get_def bindE_def raises_def)

theorem missing_profile_raises_witness:
  "truthy (opt_str (RESEND_API_KEY (scenario_env True None)))
   \<and> truthy (opt_str (RESEND_FROM (scenario_env True None)))
   \<and> RESEND_AVAILABLE (scenario_env True None)
   \<and> get_booking_by_id (scenario_store booking_B1 None None) ''B1'' = Some booking_B1
   \<and> get_payment_by_booking (scenario_store booking_B1 None None) ''B1'' = None
   \<and> get_user_profile (scenario_store booking_B1 None None) (PStr ''U1'') = None
   \<and> truthy (opt_str (Some ''a@x.com''))
   \<and> outcome (send_booking_confirmation_email (scenario_env True None)
                (scenario_store booking_B1 None None) ''B1'' (Some ''a@x.com''))
       = Inl AttributeError
   \<and> filter is_dispatch (trace (send_booking_confirmation_email (scenario_env True None)
                (scenario_store booking_B1 None None) ''B1'' (Some ''a@x.com''))) = []"
  using missing_profile_raises
  by (simp add: opt_str_def get_booking_by_id_def get_payment_by_booking_def
      get_user_profile_def)

subsection \<open>A payment row that has a receipt URL\<close>

text \<open>
  Claim C1 says that after a successful dispatch the one call of \<open>update_payment_status\<close>
  sets the receipt URL to \<open>"email_sent"\<close>. In the run below the payment row of \<open>B1\<close> holds
  a receipt URL. The confirmation is sent, and the one call of \<open>update_payment_status\<close>
  passes that URL back (\<open>payment.get("receipt_url") or "email_sent"\<close>): the row is left as
  it was, without the mark, and a second invocation sends the confirmation again.
\<close>

theorem receipt_url_not_marked:
  "filter is_update (trace (send_booking_confirmation_email (scenario_env True None)
       (scenario_store booking_B1 (Some (payment_row (PStr ''https://pay.example/receipts/1'')))
          (Some profile_ann)) ''B1'' None))
     = [UpdatePayment ''B1'' (PStr ''completed'') (PStr ''T1'')
          (PStr ''https://pay.example/receipts/1'') None]
   \<and> dict_get (or_empty (get_payment_by_booking
        (store_after (send_booking_confirmation_email (scenario_env True None)
          (scenario_store booking_B1
             (Some (payment_row (PStr ''https://pay.example/receipts/1'')))
             (Some profile_ann)) ''B1'' None)) ''B1'')) ''receipt_url'' PNone
     = PStr ''https://pay.example/receipts/1''
   \<and> length (sent_requests (fst (invocations (scenario_env True None)
       (scenario_store booking_B1 (Some (payment_row (PStr ''https://pay.example/receipts/1'')))
          (Some profile_ann)) ''B1'' [None, None]))) = 2"
proof -
  let ?env = "scenario_env True None"
  let ?st = "scenario_store booking_B1
               (Some (payment_row (PStr ''https://pay.example/receipts/1''))) (Some profile_ann)"
  let ?r = "send_booking_confirmation_email ?env ?st ''B1'' None"
  have update: "filter is_update (trace ?r)
                  = [UpdatePayment ''B1'' (PStr ''completed'') (PStr ''T1'')
                       (PStr ''https://pay.example/receipts/1'') None]"
    by (simp add: scenario_run opt_dict_def or_empty_def dispatch_def Let_def scenario_sent(1)
        mark_sent_def py_or_def update_payment_status_def returns_def)
  have first: "length (sent_requests (trace ?r)) = 1"
    by (simp add: scenario_run opt_dict_def or_empty_def sent_requests_dispatch
        scenario_sent(2) [where evs = "[]", simplified])
  have after: "get_booking_by_id (store_after ?r) ''B1'' = Some booking_B1"
    "get_user_profile (store_after ?r) (PStr ''U1'') = Some profile_ann"
    "dict_get (or_empty (get_payment_by_booking (store_after ?r) ''B1'')) ''receipt_url'' PNone
       = PStr ''https://pay.example/receipts/1''"
    by (simp_all add: scenario_run opt_dict_def or_empty_def dispatch_def Let_def
        scenario_sent(1) mark_sent_def py_or_def update_payment_status_def returns_def
        get_payment_by_booking_def get_booking_by_id_def get_user_profile_def)
       (simp_all add: dict_get_def update_conv' payment_row_def)
  have second: "length (sent_requests (trace (send_booking_confirmation_email ?env
                  (store_after ?r) ''B1'' None))) = 1"
    using after
    by (simp add: run_B1 [where pdf_bytes = "Some ''%PDF''"] opt_str_def pdf_B1_eval
        sent_requests_dispatch scenario_sent(2) [where evs = "[]", simplified])
  have both: "length (sent_requests (fst (invocations ?env ?st ''B1'' [None, None]))) = 2"
    using first second by (simp add: Let_def)
  show ?thesis
    using update after(3) both by (intro conjI)
qed

theorem receipt_url_not_marked_witness:
  "truthy (opt_str (RESEND_API_KEY (scenario_env True None)))
   \<and> truthy (opt_str (RESEND_FROM (scenario_env True None)))
   \<and> RESEND_AVAILABLE (scenario_env True None)
   \<and> get_payment_by_booking
        (scenario_store booking_B1 (Some (payment_row (PStr ''https://pay.example/receipts/1'')))
           (Some profile_ann)) ''B1''
       = Some (payment_row (PStr ''https://pay.example/receipts/1''))
   \<and> truthy (dict_get (payment_row (PStr ''https://pay.example/receipts/1'')) ''receipt_url''
               PNone)
   \<and> map is_update (trace (send_booking_confirmation_email (scenario_env True None)
        (scenario_store booking_B1 (Some (payment_row (PStr ''https://pay.example/receipts/1'')))
           (Some profile_ann)) ''B1'' None))
       \<noteq> []
   \<and> UpdatePayment ''B1'' (PStr ''completed'') (PStr ''T1'') (PStr ''email_sent'') None
       \<notin> set (filter is_update (trace (send_booking_confirmation_email (scenario_env True None)
           (scenario_store booking_B1
              (Some (payment_row (PStr ''https://pay.example/receipts/1'')))
              (Some profile_ann)) ''B1'' None)))
   \<and> 1 < length (sent_requests (fst (invocations (scenario_env True None)
       (scenario_store booking_B1 (Some (payment_row (PStr ''https://pay.example/receipts/1'')))
          (Some profile_ann)) ''B1'' [None, None])))"
  using receipt_url_not_marked
  by (auto simp: opt_str_def get_payment_by_booking_def)

lemma booking_with_get:
  "dict_get (booking_with k v) k' d = (if k' = k then v else dict_get booking_B1 k' d)"
  by (simp add: booking_with_def dict_get_def update_conv')

subsection \<open>The amount\<close>


lemma format_2f_zero: "format_2f (Finite False 0) = ''0.00''"
  by (simp add: format_2f_def round_half_even_def numeral_defs)






subsection \<open>The summary block of the PDF\<close>

text \<open>
  Claim C9 says that a summary line whose value is empty is omitted. For the booking whose
  space has an empty name and that has no attendee count, the PDF gets the lines
  \<open>Space: \<close> and \<open>Attendees: \<close>: a line with an empty value is not the empty string.
\<close>

theorem empty_value_line_counterexample:
  "summary_lines (scenario_env True None) booking_blank (Some profile_ann)
     = Inr [''Booking ID: B2'', ''Guest: Ann'', ''Email: a@x.com'', ''Space: '',
            ''Location: Kuala Lumpur'', ''Date: '', ''End: '', ''Attendees: '',
            ''Total Paid: RM0.00'', ''Status: Confirmed'']
   \<and> MultiCell 0 8 ''Space: ''
       \<in> set (pdf_ops [''Booking ID: B2'', ''Guest: Ann'', ''Email: a@x.com'', ''Space: '',
                        ''Location: Kuala Lumpur'', ''Date: '', ''End: '', ''Attendees: '',
                        ''Total Paid: RM0.00'', ''Status: Confirmed''])
   \<and> MultiCell 0 8 ''Attendees: ''
       \<in> set (pdf_ops [''Booking ID: B2'', ''Guest: Ann'', ''Email: a@x.com'', ''Space: '',
                        ''Location: Kuala Lumpur'', ''Date: '', ''End: '', ''Attendees: '',
                        ''Total Paid: RM0.00'', ''Status: Confirmed''])"
  by (simp add: summary_lines_def booking_blank_def dict_get_def py_get_def opt_dict_def
      or_empty_def py_or_def bindE_def amount_2f_def round_double_def format_2f_zero
      format_datetime_def format_datetime_try_def fromisoformat_def str_replace_def
      parse_isoformat_date_def pdf_ops_def profile_ann_def Let_def)

text \<open>
  Claim C9, amended. The summary has ten lines, each a label followed by a value, except
  that the third is the empty string when there is no profile (\<open>None\<close> or an empty dict).
  The PDF gets one \<open>multi_cell\<close> for each line that is not the empty string: all ten, or
  all but the email line when there is no profile. A line whose value is empty is written
  as its label.
\<close>

theorem summary_block_lines:
  assumes "summary_lines env booking user_profile = Inr lines"
  shows "\<exists>booking_id guest email space location starts ends attendees total status.
           lines = [''Booking ID: '' @ booking_id, ''Guest: '' @ guest,
                    (if truthy (opt_dict user_profile) then ''Email: '' @ email else []),
                    ''Space: '' @ space, ''Location: '' @ location, ''Date: '' @ starts,
                    ''End: '' @ ends, ''Attendees: '' @ attendees, ''Total Paid: RM'' @ total,
                    ''Status: '' @ status]
           \<and> pdf_ops lines =
               [AddPage, SetFont ''Helvetica'' ''B'' 16, Cell 0 12 ''Booking Confirmation'' 1,
                SetFont ''Helvetica'' [] 11, Ln 4]
               @ map (MultiCell 0 8)
                   ([''Booking ID: '' @ booking_id, ''Guest: '' @ guest]
                    @ (if truthy (opt_dict user_profile) then [''Email: '' @ email] else [])
                    @ [''Space: '' @ space, ''Location: '' @ location, ''Date: '' @ starts,
                       ''End: '' @ ends, ''Attendees: '' @ attendees, ''Total Paid: RM'' @ total,
                       ''Status: '' @ status])
               @ [Ln 6, SetFont ''Helvetica'' [] 10,
                  MultiCell 0 6 ''Thank you for choosing Infinity8. Please present this confirmation upon arrival.'']"
proof -
  obtain v0 v1 v2 v3 v4 v5 v6 v7 v8 v9 where
    l: "lines = [''Booking ID: '' @ v0, ''Guest: '' @ v1,
                 (if truthy (opt_dict user_profile) then ''Email: '' @ v2 else []),
                 ''Space: '' @ v3, ''Location: '' @ v4, ''Date: '' @ v5, ''End: '' @ v6,
                 ''Attendees: '' @ v7, ''Total Paid: RM'' @ v8, ''Status: '' @ v9]"
    using assms
    by (auto simp: summary_lines_def bindE_def Let_def split: sum.splits)
  show ?thesis
    apply (rule exI [of _ v0], rule exI [of _ v1], rule exI [of _ v2], rule exI [of _ v3],
        rule exI [of _ v4], rule exI [of _ v5], rule exI [of _ v6], rule exI [of _ v7],
        rule exI [of _ v8], rule exI [of _ v9])
    apply (simp add: l pdf_ops_def)
    done
qed

theorem summary_block_lines_witness:
  "summary_lines (scenario_env True None) booking_blank (Some []) =
     Inr [''Booking ID: B2'', ''Guest: Guest'', [], ''Space: '', ''Location: Kuala Lumpur'',
          ''Date: '', ''End: '', ''Attendees: '', ''Total Paid: RM0.00'', ''Status: Confirmed'']
   \<and> map (MultiCell 0 8)
        [''Booking ID: B2'', ''Guest: Guest'', ''Space: '', ''Location: Kuala Lumpur'',
         ''Date: '', ''End: '', ''Attendees: '', ''Total Paid: RM0.00'', ''Status: Confirmed'']
      = take 9 (drop 5 (pdf_ops
          [''Booking ID: B2'', ''Guest: Guest'', [], ''Space: '', ''Location: Kuala Lumpur'',
           ''Date: '', ''End: '', ''Attendees: '', ''Total Paid: RM0.00'',
           ''Status: Confirmed'']))"
proof -
  let ?lines = "[''Booking ID: B2'', ''Guest: Guest'', [], ''Space: '', ''Location: Kuala Lumpur'',
          ''Date: '', ''End: '', ''Attendees: '', ''Total Paid: RM0.00'', ''Status: Confirmed'']"
  have h: "summary_lines (scenario_env True None) booking_blank (Some []) = Inr ?lines"
    by (simp add: summary_lines_def booking_blank_def dict_get_def py_get_def opt_dict_def
        or_empty_def py_or_def bindE_def amount_2f_def round_double_def format_2f_zero
        format_datetime_def format_datetime_try_def fromisoformat_def str_replace_def
        parse_isoformat_date_def Let_def)
  show ?thesis
    using h summary_block_lines [OF h] by (auto simp: opt_dict_def)
qed

subsection \<open>The HTML body\<close>

lemma splitlines_from_empty: "splitlines_from cur s = [] \<longleftrightarrow> cur = [] \<and> s = []"
  by (induction cur s rule: splitlines_from.induct) auto

lemma str_join_Cons: "xs \<noteq> [] \<Longrightarrow> str_join sep (x # xs) = x @ sep @ str_join sep xs"
  by (cases xs) auto

lemma line_break_LF: "line_break (LF # cs) = 1"
  by (simp add: line_break_def LF_def CR_def)

text \<open>
  In a text whose line ends are single \<open>\n\<close> and that does not end in one, joining the
  lines with \<open><br>\<close> is replacing each \<open>\n\<close> by \<open><br>\<close>.
\<close>

lemma join_splitlines_from:
  "only_lf s \<Longrightarrow> (s \<noteq> [] \<longrightarrow> last s \<noteq> LF) \<Longrightarrow>
   str_join ''<br>'' (splitlines_from cur s) = rev cur @ str_replace LF ''<br>'' s"
proof (induction s arbitrary: cur)
  case Nil
  then show ?case by (simp add: str_replace_def)
next
  case (Cons c cs)
  have rest: "only_lf cs" and last_rest: "cs \<noteq> [] \<longrightarrow> last cs \<noteq> LF"
    using Cons.prems by auto
  show ?case
  proof (cases "c = LF")
    case True
    then have "cs \<noteq> []"
      using Cons.prems(2) by auto
    then have ne: "splitlines_from [] cs \<noteq> []"
      by (simp add: splitlines_from_empty)
    have "str_join ''<br>'' (splitlines_from cur (c # cs))
            = rev cur @ ''<br>'' @ str_join ''<br>'' (splitlines_from [] cs)"
      using True ne by (simp add: line_break_LF str_join_Cons)
    also have "str_join ''<br>'' (splitlines_from [] cs) = str_replace LF ''<br>'' cs"
      using Cons.IH [OF rest last_rest, of "[]"] by simp
    finally show ?thesis
      using True by (simp add: str_replace_def)
  next
    case False
    then have "line_break (c # cs) = 0"
      using Cons.prems(1) by simp
    then have "str_join ''<br>'' (splitlines_from cur (c # cs))
                 = str_join ''<br>'' (splitlines_from (c # cur) cs)"
      by simp
    also have "\<dots> = rev (c # cur) @ str_replace LF ''<br>'' cs"
      using Cons.IH [OF rest last_rest] .
    finally show ?thesis
      using False by (simp add: str_replace_def)
  qed
qed

lemma body_end:
  assumes "body_lines env booking user_profile space date_label = Inr lines"
  shows "str_join [LF] lines \<noteq> [] \<and> last (str_join [LF] lines) = CHR ''m''"
proof -
  obtain v0 v1 v2 v3 v4 v5 v6 where
    "lines = [v0, [], ''Your booking is confirmed. Details:'', v1, v2, v3, v4, v5, v6, [],
              ''The confirmation PDF is attached. We look forward to hosting you!'', [],
              ''-- Infinity8 Team'']"
    using assms by (auto simp: body_lines_def bindE_def Let_def split: sum.splits)
  then show ?thesis
    by simp
qed

text \<open>
  A line end that reaches the end of the text ends in one of the bytes of
  \<open>line_end_bytes\<close>. So in a text whose last byte is none of them, every line end is
  followed by a further line, and joining the lines with \<open><br>\<close> is replacing each line
  end by \<open><br>\<close>.
\<close>

lemma line_break_at_end:
  "line_break (c # cs) \<noteq> 0 \<Longrightarrow> drop (line_break (c # cs) - 1) cs = [] \<Longrightarrow>
   last (c # cs) \<in> set line_end_bytes"
  by (auto simp: line_break_def line_end_bytes_def split: list.splits if_splits)

lemma join_splitlines_from_line_ends:
  "(s \<noteq> [] \<longrightarrow> last s \<notin> set line_end_bytes) \<Longrightarrow>
   str_join ''<br>'' (splitlines_from cur s) = rev cur @ br_for_newlines s"
proof (induction cur s rule: splitlines_from.induct)
  case (1 cur)
  show ?case by simp
next
  case (2 cur c cs)
  let ?rest = "drop (line_break (c # cs) - 1) cs"
  show ?case
  proof (cases "line_break (c # cs) = 0")
    case True
    have "cs \<noteq> [] \<longrightarrow> last cs \<notin> set line_end_bytes"
      using "2.prems" by auto
    then show ?thesis
      using True "2.IH"(1) by simp
  next
    case False
    have rest: "?rest \<noteq> []"
      using line_break_at_end [OF False] "2.prems" by auto
    then have "last ?rest = last (c # cs)"
      by (auto simp: last_drop)
    then have "?rest \<noteq> [] \<longrightarrow> last ?rest \<notin> set line_end_bytes"
      using "2.prems" by simp
    then have "str_join ''<br>'' (splitlines_from [] ?rest) = br_for_newlines ?rest"
      using "2.IH"(2) [OF False] by simp
    moreover have "splitlines_from [] ?rest \<noteq> []"
      using rest by (simp add: splitlines_from_empty)
    ultimately show ?thesis
      using False by (simp add: str_join_Cons)
  qed
qed

text \<open>
  Claim C10. For every request that the workflow hands to the provider, the HTML body is
  the lines of the plaintext body, as \<open>str.splitlines\<close> splits it, joined by \<open><br>\<close>: it
  is the plaintext body with each newline replaced by \<open><br>\<close> and nothing else changed,
  a newline being a line end as \<open>str.splitlines\<close> knows them (\<open>\r\n\<close> is one newline).
  Where the only line ends in the plaintext body are single \<open>\n\<close>, the HTML body is the
  plaintext body with each \<open>\n\<close> replaced by \<open><br>\<close>.
\<close>

theorem html_body_joined_lines:
  fixes env st booking_id fallback_email
  defines "r \<equiv> send_booking_confirmation_email env st booking_id fallback_email"
  assumes "request \<in> set (sent_requests (trace r))"
  shows "req_html request = str_join ''<br>'' (splitlines (req_text request))
         \<and> req_html request = br_for_newlines (req_text request)
         \<and> (only_lf (req_text request)
              \<longrightarrow> req_html request = str_replace LF ''<br>'' (req_text request))"
proof -
  have "sent_requests (trace r) \<noteq> []"
    using assms(2) by auto
  then have "filter is_dispatch (trace r) \<noteq> []"
    using sent_requests_no_dispatch by blast
  then obtain booking rc sj lines pdf where
    lines: "body_lines env booking (profiles st (dict_get booking ''user_id'' (PStr [])))
              (py_or (dict_get booking ''spaces'' PNone) (PDict []))
              (format_datetime (dict_get booking ''start_time'' (PStr []))) = Inr lines"
    and r: "r = dispatch env st booking_id (payments st booking_id) rc sj (str_join [LF] lines)
                  pdf [GetBooking booking_id, GetPayment booking_id,
                       GetProfile (dict_get booking ''user_id'' (PStr []))]"
    using send_cases [of env st booking_id fallback_email] unfolding r_def by auto
  have "request \<in> set (sent_requests (snd (send_email_with_attachment env rc sj
           (str_join [LF] lines) pdf (''booking-'' @ booking_id @ ''.pdf''))))"
    using assms(2) unfolding r by (simp add: sent_requests_dispatch)
  then have shape: "req_text request = str_join [LF] lines"
    "req_html request = str_join ''<br>'' (splitlines (str_join [LF] lines))"
    using sent_request_shape by blast+
  have last: "str_join [LF] lines \<noteq> []" "last (str_join [LF] lines) = CHR ''m''"
    using body_end [OF lines] by simp_all
  have "last (str_join [LF] lines) \<notin> set line_end_bytes"
    unfolding last(2) by (simp add: line_end_bytes_def LF_def CR_def)
  then have all_ends: "str_join ''<br>'' (splitlines (str_join [LF] lines))
                         = br_for_newlines (str_join [LF] lines)"
    using join_splitlines_from_line_ends [of "str_join [LF] lines" "[]"]
    by (simp add: splitlines_def)
  have "last (str_join [LF] lines) \<noteq> LF"
    unfolding last(2) by (simp add: LF_def)
  then have "only_lf (str_join [LF] lines) \<longrightarrow>
          str_join ''<br>'' (splitlines (str_join [LF] lines))
            = str_replace LF ''<br>'' (str_join [LF] lines)"
    using join_splitlines_from [of "str_join [LF] lines" "[]"]
    by (simp add: splitlines_def)
  then show ?thesis
    using shape all_ends by simp
qed

text \<open>
  The theorem on two bookings: \<open>B1\<close>, whose body has no line end but \<open>\n\<close>, and \<open>B1\<close> with
  the location \<open>Level 3\r\nTower B\<close>, whose \<open>\r\n\<close> becomes one \<open><br>\<close> in the HTML body.
\<close>

theorem html_body_joined_lines_witness:
  "\<lparr>req_from = Some ''bookings@infinity8.example'', req_to = [PStr ''a@x.com''],
     req_subject = subject_B1, req_text = str_join [LF] body_lines_B1,
     req_html = str_join ''<br>'' (splitlines (str_join [LF] body_lines_B1)),
     req_attachments = None\<rparr>
     \<in> set (sent_requests (trace (send_booking_confirmation_email (scenario_env False None)
               (scenario_store booking_B1 None (Some profile_ann)) ''B1'' None)))
   \<and> only_lf (str_join [LF] body_lines_B1)
   \<and> str_join ''<br>'' (splitlines (str_join [LF] body_lines_B1))
       = str_replace LF ''<br>'' (str_join [LF] body_lines_B1)
   \<and> \<lparr>req_from = Some ''bookings@infinity8.example'', req_to = [PStr ''a@x.com''],
       req_subject = subject_B1, req_text = str_join [LF] body_lines_crlf,
       req_html = str_join ''<br>'' (splitlines (str_join [LF] body_lines_crlf)),
       req_attachments = None\<rparr>
     \<in> set (sent_requests (trace (send_booking_confirmation_email (scenario_env False None)
               (scenario_store (booking_with ''spaces'' space_crlf) None (Some profile_ann))
               ''B1'' None)))
   \<and> str_join ''<br>'' (splitlines (str_join [LF] body_lines_crlf))
       = br_for_newlines (str_join [LF] body_lines_crlf)
   \<and> br_for_newlines location_crlf = ''Level 3<br>Tower B''"
proof -
  let ?request = "\<lparr>req_from = Some ''bookings@infinity8.example'', req_to = [PStr ''a@x.com''],
     req_subject = subject_B1, req_text = str_join [LF] body_lines_B1,
     req_html = str_join ''<br>'' (splitlines (str_join [LF] body_lines_B1)),
     req_attachments = None\<rparr>"
  let ?request' = "\<lparr>req_from = Some ''bookings@infinity8.example'',
     req_to = [PStr ''a@x.com''],
     req_subject = subject_B1, req_text = str_join [LF] body_lines_crlf,
     req_html = str_join ''<br>'' (splitlines (str_join [LF] body_lines_crlf)),
     req_attachments = None\<rparr>"
  let ?b = "booking_with ''spaces'' space_crlf"
  have h1: "?request \<in> set (sent_requests (trace (send_booking_confirmation_email
              (scenario_env False None) (scenario_store booking_B1 None (Some profile_ann))
              ''B1'' None)))"
    by (simp add: scenario_run opt_dict_def sent_requests_dispatch
        scenario_sent(2) [where evs = "[]", simplified] opt_str_def)
  have h2: "only_lf (str_join [LF] body_lines_B1)"
    by (simp add: body_lines_B1_def line_break_def LF_def CR_def)
  have amount: "amount_2f ?b = Inr ''150.50''"
    using amount_B1 by (simp add: amount_2f_def booking_with_get)
  have nonempty: "?b \<noteq> []"
    by (simp add: booking_with_def booking_B1_def)
  have space: "py_get space_crlf ''name'' d = Inr (PStr ''Sky Loft'')"
    "py_get space_crlf ''location'' d = Inr (PStr location_crlf)"
    "truthy space_crlf" "location_crlf \<noteq> []" for d
    by (simp_all add: space_crlf_def py_get_def dict_get_def location_crlf_def)
  have lines: "body_lines (scenario_env False None) ?b (Some profile_ann) space_crlf
                 (PStr ''January 01, 2024 10:00 AM'') = Inr body_lines_crlf"
    by (simp add: body_lines_def amount space opt_dict_def bindE_def py_or_def Let_def
        booking_with_get numeral_defs body_lines_crlf_def)
       (simp add: py_get_def numeral_defs)
  have subject: "email_subject (scenario_env False None) space_crlf
                   (PStr ''January 01, 2024 10:00 AM'') = Inr subject_B1"
    by (simp add: email_subject_def space bindE_def subject_B1_def)
  have h3: "?request' \<in> set (sent_requests (trace (send_booking_confirmation_email
              (scenario_env False None) (scenario_store ?b None (Some profile_ann))
              ''B1'' None)))"
    by (simp add: send_booking_confirmation_email_def Let_def get_booking_by_id_def
        get_payment_by_booking_def get_user_profile_def opt_dict_def opt_str_def or_empty_def
        py_or_def booking_with_get nonempty space subject lines build_booking_pdf_def
        sent_requests_dispatch scenario_sent(2) [where evs = "[]", simplified])
  have h4: "br_for_newlines location_crlf = ''Level 3<br>Tower B''"
    by (simp add: location_crlf_def line_break_def LF_def CR_def)
  have c1: "str_join ''<br>'' (splitlines (str_join [LF] body_lines_B1))
              = str_replace LF ''<br>'' (str_join [LF] body_lines_B1)"
    using html_body_joined_lines [OF h1, simplified] h2 by blast
  have c2: "str_join ''<br>'' (splitlines (str_join [LF] body_lines_crlf))
              = br_for_newlines (str_join [LF] body_lines_crlf)"
    using html_body_joined_lines [OF h3, simplified] by blast
  show ?thesis
    using h1 h2 h3 h4 c1 c2 by (intro conjI)
qed

subsection \<open>Repeated invocations\<close>








end
